theory Spec2Isabelle
  imports Main "HOL-Library.Sublist" "HOL-Library.Word"
begin

section \<open>Errors\<close>

text \<open>
  A Go \<^verbatim>\<open>error\<close> built by \<^verbatim>\<open>errors.New\<close> or \<^verbatim>\<open>fmt.Errorf\<close> is its message.
  A function returning \<^verbatim>\<open>error\<close> is modelled with the result type \<open>error + 'a\<close>:
  \<open>Inl e\<close> is the returned error, \<open>Inr x\<close> the state left by a \<^verbatim>\<open>nil\<close> return.
\<close>

datatype error = Error (message: string)

section \<open>Strings\<close>

text \<open>
  Go strings are byte sequences; \<open>string\<close> is \<open>char list\<close> with 8-bit characters.
  \<^verbatim>\<open>strings.Join(elems, sep)\<close>:
\<close>

fun Join :: "string list \<Rightarrow> string \<Rightarrow> string" where
  "Join [] sep = []"
| "Join [x] sep = x"
| "Join (x # y # ys) sep = x @ sep @ Join (y # ys) sep"

text \<open>\<^verbatim>\<open>constant.AppInstanceLabelKey\<close> of the KubeBlocks API module.\<close>

definition AppInstanceLabelKey :: string where
  "AppInstanceLabelKey = ''app.kubernetes.io/instance''"

section \<open>Account commands: \<^verbatim>\<open>pkg/cmd/accounts/base.go\<close>\<close>

record AccountBaseOptions =
  ClusterName :: string
  CharType :: string
  ComponentName :: string
  PodName :: string
  Verbose :: bool

definition errClusterNameNum :: error where
  "errClusterNameNum = Error ''please specify ONE cluster-name at a time''"

definition errMissingUserName :: error where
  "errMissingUserName = Error ''please specify username''"

definition errMissingRoleName :: error where
  "errMissingRoleName = Error ''please specify at least ONE role name''"

definition errInvalidRoleName :: error where
  "errInvalidRoleName =
     Error ''invalid role name, should be one of [SUPERUSER, READWRITE, READONLY] ''"

definition errCompNameOrInstName :: error where
  "errCompNameOrInstName =
     Error ''please specify either --component or --instance, they are exclusive''"

definition errClusterNameorInstName :: error where
  "errClusterNameorInstName = Error ''specify either cluster name or --instance''"

text \<open>
  \<^verbatim>\<open>func (o *AccountBaseOptions) Validate(args []string) error\<close>.  The receiver is
  updated in place only on the path that returns \<^verbatim>\<open>nil\<close>, so the updated options
  are the \<open>Inr\<close> result.
\<close>

definition AccountBaseOptions_Validate ::
  "AccountBaseOptions \<Rightarrow> string list \<Rightarrow> error + AccountBaseOptions" where
  "AccountBaseOptions_Validate opts args =
    (if 1 < length args then Inl errClusterNameNum
     else
       (let fail =
          (if 0 < length (PodName opts) then
             (if 0 < length (ComponentName opts) then Some errCompNameOrInstName
              else if 0 < length args then Some errClusterNameorInstName
              else None)
           else if length args = 0 then Some errClusterNameorInstName
           else None)
        in case fail of
             Some e \<Rightarrow> Inl e
           | None \<Rightarrow>
               if length args = 1 then Inr (opts\<lparr>ClusterName := args ! 0\<rparr>)
               else Inr opts))"

section \<open>Deleting backups: \<^verbatim>\<open>completeForDeleteBackup\<close>\<close>

text \<open>
  The fields of \<^verbatim>\<open>action.DeleteOptions\<close> that \<^verbatim>\<open>completeForDeleteBackup\<close> reads and
  writes.  \<^verbatim>\<open>Names\<close> is bound to the repeatable flag \<^verbatim>\<open>--name\<close>, \<^verbatim>\<open>Force\<close> to
  \<^verbatim>\<open>--force\<close>.
\<close>

record DeleteOptions =
  Names :: "string list"
  ConfirmedNames :: "string list"
  Force :: bool
  LabelSelector :: string

text \<open>
  \<^verbatim>\<open>util.BuildLabelSelectorByNames\<close> lives in \<^verbatim>\<open>pkg/util\<close>; the function is the
  parameter \<open>build\<close>.
\<close>

definition completeForDeleteBackup ::
  "(string \<Rightarrow> string list \<Rightarrow> string) \<Rightarrow> DeleteOptions \<Rightarrow> string list \<Rightarrow> error + DeleteOptions"
  where
  "completeForDeleteBackup build opts args =
    (if length args = 0 then Inl (Error ''Missing cluster name'')
     else if 1 < length args then
       Inl (Error ''Only supported delete the Backup of one cluster'')
     else if \<not> Force opts \<and> length (Names opts) = 0 then
       Inl (Error ''Missing --name as backup name.'')
     else
       (let opts1 =
          (if Force opts \<and> length (Names opts) = 0 then
             opts\<lparr>LabelSelector := build (LabelSelector opts) args,
                  ConfirmedNames := args\<rparr>
           else opts)
        in Inr (opts1\<lparr>ConfirmedNames := Names opts1\<rparr>)))"

text \<open>
  Modelled from the spec: \<^verbatim>\<open>util.BuildLabelSelectorByNames\<close> (\<^verbatim>\<open>pkg/util\<close>) is not
  among the sources.  The specification describes a label selector "built by joining
  candidate resource names into an "in" style selector"; this definition joins the names
  with commas under the instance label and appends the result to a selector already
  given.  It only instantiates the parameter \<open>build\<close> at concrete inputs.
\<close>

definition BuildLabelSelectorByNames :: "string \<Rightarrow> string list \<Rightarrow> string" where
  "BuildLabelSelectorByNames selector names =
    (if length names = 0 then selector
     else
       (let label = AppInstanceLabelKey @ '' in ('' @ Join names '','' @ '')''
        in if length selector = 0 then label else selector @ '','' @ label))"

text \<open>
  The \<^verbatim>\<open>Run\<close> closure of \<^verbatim>\<open>NewDeleteBackupCmd\<close>:
  \<^verbatim>\<open>util.CheckErr(completeForDeleteBackup(o, args)); util.CheckErr(o.Run())\<close>.
  \<^verbatim>\<open>CheckErr\<close> ends the process on an error, so \<open>Inl e\<close> is the exit before
  \<^verbatim>\<open>o.Run\<close>; \<open>Inr r\<close> carries whatever \<^verbatim>\<open>o.Run\<close> (the parameter \<open>run\<close>, of
  \<^verbatim>\<open>pkg/action\<close>) did with the completed options.
\<close>

definition NewDeleteBackupCmd_Run ::
  "(string \<Rightarrow> string list \<Rightarrow> string) \<Rightarrow> (DeleteOptions \<Rightarrow> 'r) \<Rightarrow> DeleteOptions \<Rightarrow> string list
     \<Rightarrow> error + 'r" where
  "NewDeleteBackupCmd_Run build run opts args =
    (case completeForDeleteBackup build opts args of
       Inl e \<Rightarrow> Inl e
     | Inr opts' \<Rightarrow> Inr (run opts'))"

section \<open>The Kubernetes collaborators\<close>

text \<open>
  The resource descriptors returned by \<^verbatim>\<open>types.ClusterGVR()\<close>, \<^verbatim>\<open>types.BackupGVR()\<close> and
  the like (\<^verbatim>\<open>pkg/types\<close>) are opaque group-version-resource triples.
\<close>

datatype gvr = ClusterGVR | BackupPolicyGVR | BackupGVR | BackupRepoGVR | OpsGVR

text \<open>
  One action of \<^verbatim>\<open>backup.Status.Actions\<close>; \<^verbatim>\<open>AvailableReplicas\<close> is a \<^verbatim>\<open>*int32\<close>.
\<close>

record ActionStatus =
  ActionType :: string
  AvailableReplicas :: "32 word option"

text \<open>
  An \<^verbatim>\<open>unstructured.Unstructured\<close> object as the dynamic client returns it: the
  metadata read through its accessors, and the fields of \<^verbatim>\<open>spec\<close> and \<^verbatim>\<open>status\<close> that
  the commands read after conversion.  A field the object does not carry has the zero
  value of its Go type.  Times are seconds since the epoch, durations nanoseconds.
  \<open>convertError\<close> is the error \<^verbatim>\<open>runtime.DefaultUnstructuredConverter.FromUnstructured\<close>
  returns for the object, if it returns one.
\<close>

record unstructured =
  GetName :: string
  GetNamespace :: string
  GetLabels :: "string \<rightharpoonup> string"
  GetAnnotations :: "string \<rightharpoonup> string"
  GetCreationTimestamp :: int
  convertError :: "error option"
  spec_backupMethod :: string
  spec_backupRepoName :: "string option"
  status_phase :: string
  status_totalSize :: string
  status_duration :: "int option"
  status_completionTimestamp :: "int option"
  status_expiration :: "int option"
  status_actions :: "ActionStatus list"

text \<open>Indexing a Go \<^verbatim>\<open>map[string]string\<close>: a missing key reads as the empty string.\<close>

definition index :: "(string \<rightharpoonup> string) \<Rightarrow> string \<Rightarrow> string" where
  "index m k = (case m k of None \<Rightarrow> '''' | Some v \<Rightarrow> v)"

text \<open>\<^verbatim>\<open>metav1.ListOptions\<close>, with the two selectors the commands set.\<close>

record metav1_ListOptions =
  lo_LabelSelector :: string
  lo_FieldSelector :: string

text \<open>
  \<^verbatim>\<open>dynamic.Interface\<close>: \<^verbatim>\<open>Resource(gvr).Namespace(ns)\<close> followed by \<^verbatim>\<open>Get\<close>,
  \<^verbatim>\<open>List\<close> or \<^verbatim>\<open>Update\<close>.  A cluster-scoped request has the empty namespace.  The
  client is an interface, so what the API server answers is a parameter.
\<close>

record dynamic =
  dyn_Get :: "gvr \<Rightarrow> string \<Rightarrow> string \<Rightarrow> error + unstructured"
  dyn_List :: "gvr \<Rightarrow> string \<Rightarrow> metav1_ListOptions \<Rightarrow> error + unstructured list"
  dyn_Update :: "gvr \<Rightarrow> string \<Rightarrow> unstructured \<Rightarrow> error + unstructured"

text \<open>The typed \<^verbatim>\<open>dpv1alpha1.Backup\<close>, with the fields the commands read.\<close>

record Backup =
  b_Name :: string
  b_Namespace :: string
  b_Labels :: "string \<rightharpoonup> string"
  b_CreationTimestamp :: int
  b_BackupMethod :: string
  b_Phase :: string
  b_TotalSize :: string
  b_Duration :: "int option"
  b_CompletionTimestamp :: "int option"
  b_Expiration :: "int option"
  b_Actions :: "ActionStatus list"

text \<open>The typed \<^verbatim>\<open>dpv1alpha1.BackupPolicy\<close>.\<close>

record BackupPolicy =
  bp_Name :: string
  bp_Namespace :: string
  bp_Labels :: "string \<rightharpoonup> string"
  bp_Annotations :: "string \<rightharpoonup> string"
  bp_CreationTimestamp :: int
  bp_BackupRepoName :: "string option"
  bp_Phase :: string

text \<open>
  \<^verbatim>\<open>runtime.DefaultUnstructuredConverter.FromUnstructured(obj.Object, backup)\<close> and its
  inverse \<^verbatim>\<open>ToUnstructured\<close>.
\<close>

definition FromUnstructured_Backup :: "unstructured \<Rightarrow> error + Backup" where
  "FromUnstructured_Backup obj =
    (case convertError obj of
       Some e \<Rightarrow> Inl e
     | None \<Rightarrow>
         Inr \<lparr>b_Name = GetName obj, b_Namespace = GetNamespace obj, b_Labels = GetLabels obj,
              b_CreationTimestamp = GetCreationTimestamp obj,
              b_BackupMethod = spec_backupMethod obj, b_Phase = status_phase obj,
              b_TotalSize = status_totalSize obj, b_Duration = status_duration obj,
              b_CompletionTimestamp = status_completionTimestamp obj,
              b_Expiration = status_expiration obj, b_Actions = status_actions obj\<rparr>)"

definition FromUnstructured_BackupPolicy :: "unstructured \<Rightarrow> error + BackupPolicy" where
  "FromUnstructured_BackupPolicy obj =
    (case convertError obj of
       Some e \<Rightarrow> Inl e
     | None \<Rightarrow>
         Inr \<lparr>bp_Name = GetName obj, bp_Namespace = GetNamespace obj,
              bp_Labels = GetLabels obj, bp_Annotations = GetAnnotations obj,
              bp_CreationTimestamp = GetCreationTimestamp obj,
              bp_BackupRepoName = spec_backupRepoName obj, bp_Phase = status_phase obj\<rparr>)"

definition ToUnstructured_BackupPolicy :: "BackupPolicy \<Rightarrow> error + unstructured" where
  "ToUnstructured_BackupPolicy p =
     Inr \<lparr>GetName = bp_Name p, GetNamespace = bp_Namespace p, GetLabels = bp_Labels p,
          GetAnnotations = bp_Annotations p, GetCreationTimestamp = bp_CreationTimestamp p,
          convertError = None, spec_backupMethod = '''',
          spec_backupRepoName = bp_BackupRepoName p, status_phase = bp_Phase p,
          status_totalSize = '''', status_duration = None,
          status_completionTimestamp = None, status_expiration = None,
          status_actions = []\<rparr>"

text \<open>Constants of the KubeBlocks API modules, and \<^verbatim>\<open>TrueValue\<close> of this package.\<close>

definition TrueValue :: string where
  "TrueValue = ''true''"

definition DefaultBackupPolicyAnnotationKey :: string where
  "DefaultBackupPolicyAnnotationKey = ''dataprotection.kubeblocks.io/is-default-policy''"

definition BackupPhaseCompleted :: string where
  "BackupPhaseCompleted = ''Completed''"

definition BackupType :: string where
  "BackupType = ''Backup''"

definition ActionTypeStatefulSet :: string where
  "ActionTypeStatefulSet = ''StatefulSet''"

section \<open>Creating a backup\<close>

text \<open>
  \<^verbatim>\<open>action.CreateOptions\<close> (the fields \<^verbatim>\<open>CreateBackupOptions\<close> uses), the
  \<^verbatim>\<open>BackupSpec\<close> bound to the flags, and \<^verbatim>\<open>CreateBackupOptions\<close> itself.
\<close>

record CreateOptions =
  Name :: string
  Namespace :: string
  Args :: "string list"
  Dynamic :: dynamic

record BackupSpec =
  BackupName :: string
  BackupPolicyName :: string
  BackupMethod :: string
  DeletionPolicy :: string
  RetentionPeriod :: string
  ParentBackupName :: string

record CreateBackupOptions =
  BackupSpec :: BackupSpec
  ClusterRef :: string
  OpsType :: string
  OpsRequestName :: string
  CreateOptions :: CreateOptions

subsection \<open>The generated name\<close>

text \<open>
  A reading of the clock, and \<^verbatim>\<open>time.Format("20060102150405")\<close>: the year padded
  to four digits, then month, day, hour, minute and second padded to two.
\<close>

record time =
  Year :: nat
  Month :: nat
  Day :: nat
  Hour :: nat
  Minute :: nat
  Second :: nat

definition digit :: "nat \<Rightarrow> char" where
  "digit n = ''0123456789'' ! (n mod 10)"

fun decimal :: "nat \<Rightarrow> string" where
  "decimal n = (if n < 10 then [digit n] else decimal (n div 10) @ [digit n])"

declare decimal.simps [simp del]

definition appendInt :: "nat \<Rightarrow> nat \<Rightarrow> string" where
  "appendInt n width = replicate (width - length (decimal n)) CHR ''0'' @ decimal n"

definition Format_20060102150405 :: "time \<Rightarrow> string" where
  "Format_20060102150405 t =
     appendInt (Year t) 4 @ appendInt (Month t) 2 @ appendInt (Day t) 2 @
     appendInt (Hour t) 2 @ appendInt (Minute t) 2 @ appendInt (Second t) 2"

text \<open>
  \<^verbatim>\<open>func (o *CreateBackupOptions) CompleteBackup() error\<close>.  \<^verbatim>\<open>o.Complete\<close> is the
  method of the embedded \<^verbatim>\<open>action.CreateOptions\<close> (\<^verbatim>\<open>pkg/action\<close>), the parameter
  \<open>Complete\<close>; it is called first and last.  \<open>now\<close> is what \<^verbatim>\<open>time.Now()\<close> reads.
\<close>

definition CompleteBackup ::
  "(CreateOptions \<Rightarrow> error + CreateOptions) \<Rightarrow> time \<Rightarrow> CreateBackupOptions
     \<Rightarrow> error + CreateBackupOptions" where
  "CompleteBackup Complete now opts =
    (case Complete (CreateOptions opts) of
       Inl err \<Rightarrow> Inl err
     | Inr c1 \<Rightarrow>
        (let o1 = opts\<lparr>CreateOptions := c1\<rparr>;
             o2 = (if length (BackupName (BackupSpec o1)) = 0 then
                     o1\<lparr>BackupSpec := (BackupSpec o1)\<lparr>BackupName :=
                          Join [''backup'', Namespace (CreateOptions o1),
                                Name (CreateOptions o1), Format_20060102150405 now] ''-''\<rparr>\<rparr>
                   else o1);
             o3 = o2\<lparr>OpsType := BackupType,
                     OpsRequestName := BackupName (BackupSpec o2),
                     ClusterRef := Name (CreateOptions o2)\<rparr>
         in case Complete (CreateOptions o3) of
              Inl err \<Rightarrow> Inl err
            | Inr c2 \<Rightarrow> Inr (o3\<lparr>CreateOptions := c2\<rparr>)))"

subsection \<open>Validation\<close>

text \<open>\<^verbatim>\<open>func (o *CreateBackupOptions) getDefaultBackupPolicy() (string, error)\<close>.\<close>

definition getDefaultBackupPolicy :: "CreateBackupOptions \<Rightarrow> error + string" where
  "getDefaultBackupPolicy opts =
    (let co = CreateOptions opts in
     case dyn_Get (Dynamic co) ClusterGVR (Namespace co) (Name co) of
       Inl err \<Rightarrow> Inl err
     | Inr clusterObj \<Rightarrow>
        (case dyn_List (Dynamic co) BackupPolicyGVR (Namespace co)
                \<lparr>lo_LabelSelector = AppInstanceLabelKey @ ''='' @ GetName clusterObj,
                 lo_FieldSelector = ''''\<rparr> of
           Inl err \<Rightarrow> Inl err
         | Inr items \<Rightarrow>
            if length items = 0 then
              Inl (Error (''not found any backup policy for cluster '' @ [CHR 0x22] @ Name co
                           @ [CHR 0x22]))
            else
              (let defaultBackupPolicies =
                 filter (\<lambda>obj. index (GetAnnotations obj) DefaultBackupPolicyAnnotationKey
                                = TrueValue) items
               in if length defaultBackupPolicies = 0 then
                    Inl (Error (''not found any default backup policy for cluster ''
                                 @ [CHR 0x22] @ Name co @ [CHR 0x22]))
                  else if 1 < length defaultBackupPolicies then
                    Inl (Error (''cluster '' @ [CHR 0x22] @ Name co @ [CHR 0x22]
                                 @ '' has multiple default backup policies''))
                  else Inr (GetName (defaultBackupPolicies ! 0)))))"

text \<open>\<^verbatim>\<open>func (o *CreateBackupOptions) completeDefaultBackupPolicy() error\<close>.\<close>

definition completeDefaultBackupPolicy ::
  "CreateBackupOptions \<Rightarrow> error + CreateBackupOptions" where
  "completeDefaultBackupPolicy opts =
    (case getDefaultBackupPolicy opts of
       Inl err \<Rightarrow> Inl err
     | Inr defaultBackupPolicyName \<Rightarrow>
         Inr (opts\<lparr>BackupSpec := (BackupSpec opts)\<lparr>BackupPolicyName :=
                defaultBackupPolicyName\<rparr>\<rparr>))"

text \<open>
  \<^verbatim>\<open>func (o *CreateBackupOptions) Validate() error\<close>, in three parts that follow the
  source's order.  \<open>Validate_parentBackup\<close> is the block "check if parent backup
  exists"; \<open>Validate_policy\<close> is what precedes it from "check if backup policy exists"
  on: the policy lookup and the checks of method and retention period.
  \<^verbatim>\<open>dpv1alpha1.RetentionPeriod.ToDuration\<close> belongs to the KubeBlocks API module and is
  the parameter \<open>ToDuration\<close>.
\<close>

definition Validate_parentBackup :: "CreateBackupOptions \<Rightarrow> error + CreateBackupOptions" where
  "Validate_parentBackup opts =
    (let co = CreateOptions opts; parent = ParentBackupName (BackupSpec opts) in
     if parent \<noteq> '''' then
       (case dyn_Get (Dynamic co) BackupGVR (Namespace co) parent of
          Inl err \<Rightarrow> Inl err
        | Inr parentBackupObj \<Rightarrow>
           (case FromUnstructured_Backup parentBackupObj of
              Inl err \<Rightarrow> Inl err
            | Inr parentBackup \<Rightarrow>
               if b_Phase parentBackup \<noteq> BackupPhaseCompleted then
                 Inl (Error (''parent backup '' @ parent @ '' is not completed''))
               else if index (b_Labels parentBackup) AppInstanceLabelKey \<noteq> Name co then
                 Inl (Error (''parent backup '' @ parent @ '' is not belong to cluster ''
                              @ Name co))
               else Inr opts))
     else Inr opts)"

definition Validate_policy ::
  "(string \<Rightarrow> error + int) \<Rightarrow> CreateBackupOptions \<Rightarrow> error + CreateBackupOptions" where
  "Validate_policy ToDuration opts =
    (let co = CreateOptions opts in
     case dyn_Get (Dynamic co) BackupPolicyGVR (Namespace co)
            (BackupPolicyName (BackupSpec opts)) of
       Inl err \<Rightarrow> Inl err
     | Inr backupPolicyObj \<Rightarrow>
        (case FromUnstructured_BackupPolicy backupPolicyObj of
           Inl err \<Rightarrow> Inl err
         | Inr backupPolicy \<Rightarrow>
            if BackupMethod (BackupSpec opts) = '''' then
              Inl (Error
                ''backup method can not be empty, you can specify it by --method'')
            else if RetentionPeriod (BackupSpec opts) \<noteq> '''' \<and>
                    isl (ToDuration (RetentionPeriod (BackupSpec opts))) then
              Inl (Error (''invalid retention period, please refer to examples ''
                @ ''[1y, 1m, 1d, 1h, 1m] or combine them [1y1m1d1h1m]''))
            else Inr opts))"

definition Validate ::
  "(string \<Rightarrow> error + int) \<Rightarrow> CreateBackupOptions \<Rightarrow> error + CreateBackupOptions" where
  "Validate ToDuration opts =
    (if Name (CreateOptions opts) = '''' then Inl (Error ''missing cluster name'')
     else
       (case (if BackupPolicyName (BackupSpec opts) = '''' then
                completeDefaultBackupPolicy opts
              else Inr opts) of
          Inl err \<Rightarrow> Inl err
        | Inr o1 \<Rightarrow>
           (case Validate_policy ToDuration o1 of
              Inl err \<Rightarrow> Inl err
            | Inr o2 \<Rightarrow> Validate_parentBackup o2)))"

text \<open>
  The \<^verbatim>\<open>Run\<close> closure of \<^verbatim>\<open>NewCreateBackupCmd\<close>: \<^verbatim>\<open>o.Args = args\<close>, then
  \<^verbatim>\<open>CheckErr(o.CompleteBackup())\<close>, \<^verbatim>\<open>CheckErr(o.Validate())\<close> and
  \<^verbatim>\<open>CheckErr(o.Run())\<close>.  \<^verbatim>\<open>o.Run\<close> of \<^verbatim>\<open>action.CreateOptions\<close>, which submits the
  OpsRequest, is the parameter \<open>run\<close>; \<open>Inl e\<close> is the exit before it.
\<close>

definition NewCreateBackupCmd_Run ::
  "(CreateOptions \<Rightarrow> error + CreateOptions) \<Rightarrow> time \<Rightarrow> (string \<Rightarrow> error + int)
     \<Rightarrow> (CreateBackupOptions \<Rightarrow> 'r) \<Rightarrow> CreateBackupOptions \<Rightarrow> string list \<Rightarrow> error + 'r" where
  "NewCreateBackupCmd_Run Complete now ToDuration run opts args =
    (case CompleteBackup Complete now
            (opts\<lparr>CreateOptions := (CreateOptions opts)\<lparr>Args := args\<rparr>\<rparr>) of
       Inl err \<Rightarrow> Inl err
     | Inr o1 \<Rightarrow>
        (case Validate ToDuration o1 of
           Inl err \<Rightarrow> Inl err
         | Inr o2 \<Rightarrow> Inr (run o2)))"

section \<open>More of the \<^verbatim>\<open>strings\<close> package\<close>

text \<open>
  \<^verbatim>\<open>strings.Split(s, sep)\<close> for a separator of one byte: the pieces between the
  separators, one more than there are separators.
\<close>

fun Split :: "string \<Rightarrow> char \<Rightarrow> string list" where
  "Split [] sep = [[]]"
| "Split (c # cs) sep =
     (if c = sep then [] # Split cs sep
      else (case Split cs sep of
              [] \<Rightarrow> [[c]]
            | p # ps \<Rightarrow> (c # p) # ps))"

text \<open>\<^verbatim>\<open>strings.HasPrefix\<close>, and \<^verbatim>\<open>strings.Trim(s, cutset)\<close> for a cutset of one byte.\<close>

definition HasPrefix :: "string \<Rightarrow> string \<Rightarrow> bool" where
  "HasPrefix s pre = prefix pre s"

definition Trim :: "string \<Rightarrow> char \<Rightarrow> string" where
  "Trim s c = rev (dropWhile (\<lambda>x. x = c) (rev (dropWhile (\<lambda>x. x = c) s)))"

text \<open>
  \<^verbatim>\<open>strings.TrimSpace\<close> removes leading and trailing runes for which
  \<^verbatim>\<open>unicode.IsSpace\<close> holds.  \<open>spaceRunes\<close> lists their UTF-8 encodings: the six ASCII
  ones, U+0085, U+00A0, U+1680, U+2000 to U+200A, U+2028, U+2029, U+202F, U+205F and
  U+3000.
\<close>

definition spaceRunes :: "string list" where
  "spaceRunes =
     [[CHR 0x09], [CHR 0x0A], [CHR 0x0B], [CHR 0x0C], [CHR 0x0D], [CHR 0x20],
      [CHR 0xC2, CHR 0x85], [CHR 0xC2, CHR 0xA0], [CHR 0xE1, CHR 0x9A, CHR 0x80],
      [CHR 0xE2, CHR 0x80, CHR 0x80], [CHR 0xE2, CHR 0x80, CHR 0x81],
      [CHR 0xE2, CHR 0x80, CHR 0x82], [CHR 0xE2, CHR 0x80, CHR 0x83],
      [CHR 0xE2, CHR 0x80, CHR 0x84], [CHR 0xE2, CHR 0x80, CHR 0x85],
      [CHR 0xE2, CHR 0x80, CHR 0x86], [CHR 0xE2, CHR 0x80, CHR 0x87],
      [CHR 0xE2, CHR 0x80, CHR 0x88], [CHR 0xE2, CHR 0x80, CHR 0x89],
      [CHR 0xE2, CHR 0x80, CHR 0x8A], [CHR 0xE2, CHR 0x80, CHR 0xA8],
      [CHR 0xE2, CHR 0x80, CHR 0xA9], [CHR 0xE2, CHR 0x80, CHR 0xAF],
      [CHR 0xE2, CHR 0x81, CHR 0x9F], [CHR 0xE3, CHR 0x80, CHR 0x80]]"

text \<open>Dropping, from the front, every leading occurrence of one of the byte sequences.\<close>

function dropRunes :: "string list \<Rightarrow> string \<Rightarrow> string" where
  "dropRunes rs s =
     (case find (\<lambda>r. r \<noteq> [] \<and> prefix r s) rs of
        None \<Rightarrow> s
      | Some r \<Rightarrow> dropRunes rs (drop (length r) s))"
  by pat_completeness auto
termination
proof (relation "measure (\<lambda>(rs, s). length s)")
  show "wf (measure (\<lambda>(rs, s). length s))" by simp
next
  fix rs :: "string list" and s r :: string
  assume "find (\<lambda>r. r \<noteq> [] \<and> prefix r s) rs = Some r"
  then have "r \<noteq> []" and "prefix r s"
    by (auto simp: find_Some_iff)
  then have "s \<noteq> []" and "0 < length r"
    by auto
  then show "((rs, drop (length r) s), (rs, s)) \<in> measure (\<lambda>(rs, s). length s)"
    by simp
qed

definition TrimSpace :: "string \<Rightarrow> string" where
  "TrimSpace s = rev (dropRunes (map rev spaceRunes) (rev (dropRunes spaceRunes s)))"

section \<open>Editing a backup policy\<close>

text \<open>
  \<^verbatim>\<open>cmdutil.Factory\<close>: the namespace of the kubeconfig loader and the dynamic client,
  each of which can fail.
\<close>

record Factory =
  f_Namespace :: "error + string"
  f_DynamicClient :: "error + dynamic"

type_synonym updateBackupPolicyFieldFunc = "BackupPolicy \<Rightarrow> string \<Rightarrow> error + BackupPolicy"

text \<open>An \<^verbatim>\<open>editorRow\<close>; \<open>None\<close> is a \<^verbatim>\<open>nil\<close> update function.\<close>

record editorRow =
  key :: string
  jsonpath :: string
  updateFunc :: "updateBackupPolicyFieldFunc option"

text \<open>
  \<^verbatim>\<open>editBackupPolicyOptions\<close>.  \<open>e_Out\<close> holds the lines written to the output
  stream.
\<close>

record editBackupPolicyOptions =
  e_namespace :: string
  e_name :: string
  e_dynamic :: dynamic
  e_Factory :: Factory
  editContent :: "editorRow list"
  editContentKeyMap :: "string \<rightharpoonup> updateBackupPolicyFieldFunc"
  original :: string
  target :: string
  e_values :: "string list"
  isTest :: bool
  e_Out :: "string list"

text \<open>
  The closure \<^verbatim>\<open>updateRepoName\<close> of \<^verbatim>\<open>complete\<close>: it looks the repository up
  (cluster-scoped) unless the value is empty, and then sets or clears
  \<^verbatim>\<open>backupPolicy.Spec.BackupRepoName\<close>.  The policy passed by \<^verbatim>\<open>applyChanges\<close> is never
  \<^verbatim>\<open>nil\<close>.
\<close>

definition updateRepoName :: "dynamic \<Rightarrow> updateBackupPolicyFieldFunc" where
  "updateRepoName dyn backupPolicy targetVal =
    (case (if targetVal \<noteq> '''' then
             (case dyn_Get dyn BackupRepoGVR '''' targetVal of
                Inl err \<Rightarrow> Some err
              | Inr _ \<Rightarrow> None)
           else None) of
       Some err \<Rightarrow> Inl err
     | None \<Rightarrow>
         if targetVal \<noteq> '''' then Inr (backupPolicy\<lparr>bp_BackupRepoName := Some targetVal\<rparr>)
         else Inr (backupPolicy\<lparr>bp_BackupRepoName := None\<rparr>))"

text \<open>The loop of \<^verbatim>\<open>complete\<close> that fills \<^verbatim>\<open>editContentKeyMap\<close> from the rows.\<close>

fun fillKeyMap ::
  "editorRow list \<Rightarrow> (string \<rightharpoonup> updateBackupPolicyFieldFunc)
     \<Rightarrow> error + (string \<rightharpoonup> updateBackupPolicyFieldFunc)" where
  "fillKeyMap [] m = Inr m"
| "fillKeyMap (v # vs) m =
     (case updateFunc v of
        None \<Rightarrow> Inl (Error ''updateFunc can not be nil'')
      | Some f \<Rightarrow> fillKeyMap vs (m(key v \<mapsto> f)))"

text \<open>\<^verbatim>\<open>func (o *editBackupPolicyOptions) complete(args []string) error\<close>.\<close>

definition complete ::
  "editBackupPolicyOptions \<Rightarrow> string list \<Rightarrow> error + editBackupPolicyOptions" where
  "complete opts args =
    (if length args = 0 then Inl (Error ''missing backupPolicy name'')
     else if 1 < length args then
       Inl (Error ''only support to update one backupPolicy or quote cronExpression'')
     else
       (case f_Namespace (e_Factory opts) of
          Inl err \<Rightarrow> Inl err
        | Inr ns \<Rightarrow>
           (case f_DynamicClient (e_Factory opts) of
              Inl err \<Rightarrow> Inl err
            | Inr dyn \<Rightarrow>
               (let rows = [\<lparr>key = ''backupRepoName'', jsonpath = ''backupRepoName'',
                              updateFunc = Some (updateRepoName dyn)\<rparr>]
                in case fillKeyMap rows Map.empty of
                     Inl err \<Rightarrow> Inl err
                   | Inr m \<Rightarrow>
                       Inr (opts\<lparr>e_name := args ! 0, e_namespace := ns, e_dynamic := dyn,
                                  editContent := rows, editContentKeyMap := m\<rparr>)))))"

text \<open>
  What \<^verbatim>\<open>applyChanges\<close> works on: the receiver \<open>this\<close>, the policy behind the pointer
  it is given, and two logs kept for stating properties: \<open>invoked\<close> records every call
  of an update function with its key and value, \<open>sent\<close> every \<^verbatim>\<open>Update\<close> request
  issued through \<^verbatim>\<open>o.dynamic\<close> with its namespace and object.
\<close>

record editRun =
  this :: editBackupPolicyOptions
  backupPolicy :: BackupPolicy
  invoked :: "(string \<times> string) list"
  sent :: "(string \<times> unstructured) list"

text \<open>
  The loop of \<^verbatim>\<open>applyChanges\<close> over \<^verbatim>\<open>o.values\<close>.  The result carries the state at
  the return, and the error of an early return.
\<close>

fun applyRows :: "string list \<Rightarrow> editRun \<Rightarrow> editRun \<times> error option" where
  "applyRows [] s = (s, None)"
| "applyRows (v # vs) s =
    (let row = TrimSpace v in
     if HasPrefix row ''#'' \<or> row = '''' then applyRows vs s
     else
       (let s1 = s\<lparr>this := (this s)\<lparr>target := target (this s) @ row\<rparr>\<rparr>;
            arr = Split row CHR ''=''
        in if length arr \<noteq> 2 then
             (s1, Some (Error (''invalid row: '' @ v @ '', format should be ''
                               @ [CHR 0x22] @ ''key=value'' @ [CHR 0x22])))
           else
             (case editContentKeyMap (this s1) (arr ! 0) of
                None \<Rightarrow> (s1, Some (Error (''invalid key: '' @ arr ! 0)))
              | Some updateFn \<Rightarrow>
                 (let val = Trim (Trim (arr ! 1) (CHR 0x22)) (CHR 0x27);
                      s2 = s1\<lparr>invoked := invoked s1 @ [(arr ! 0, val)]\<rparr>
                  in case updateFn (backupPolicy s2) val of
                       Inl err \<Rightarrow> (s2, Some err)
                     | Inr p \<Rightarrow> applyRows vs (s2\<lparr>backupPolicy := p\<rparr>)))))"

text \<open>\<^verbatim>\<open>func (o *editBackupPolicyOptions) applyChanges(backupPolicy) error\<close>.\<close>

definition applyChanges :: "editRun \<Rightarrow> editRun \<times> error option" where
  "applyChanges s0 =
    (case applyRows (e_values (this s0)) s0 of
       (s, Some err) \<Rightarrow> (s, Some err)
     | (s, None) \<Rightarrow>
        if original (this s) = target (this s) then
          (s\<lparr>this := (this s)\<lparr>e_Out := e_Out (this s) @ [''updated (no change)'']\<rparr>\<rparr>, None)
        else
          (case ToUnstructured_BackupPolicy (backupPolicy s) of
             Inl err \<Rightarrow> (s, Some err)
           | Inr obj \<Rightarrow>
              (let s1 = s\<lparr>sent := sent s @ [(bp_Namespace (backupPolicy s), obj)]\<rparr> in
               case dyn_Update (e_dynamic (this s1)) BackupPolicyGVR
                      (bp_Namespace (backupPolicy s1)) obj of
                 Inl err \<Rightarrow> (s1, Some err)
               | Inr _ \<Rightarrow>
                   (s1\<lparr>this := (this s1)\<lparr>e_Out := e_Out (this s1) @ [''updated'']\<rparr>\<rparr>,
                    None))))"

subsection \<open>The lines of an edit, in the words of the specification\<close>

text \<open>
  The specification speaks of comment and empty lines, which are ignored, of lines "not
  of the form key=value" or with a key that is "not in the editable-key table", and of
  valid lines.  These definitions classify one line of \<^verbatim>\<open>o.values\<close> accordingly, for
  a key table \<open>km\<close>; they are what the properties of \<open>applyRows\<close> are stated with.
  \<open>lineError\<close> is the error of a rejected line, \<open>requestOf\<close> the key and value a
  valid line asks to set.
\<close>

definition ignoredLine :: "string \<Rightarrow> bool" where
  "ignoredLine v = (HasPrefix (TrimSpace v) ''#'' \<or> TrimSpace v = '''')"

definition keyValueForm :: "string \<Rightarrow> bool" where
  "keyValueForm v = (length (Split (TrimSpace v) CHR ''='') = 2)"

definition keyOf :: "string \<Rightarrow> string" where
  "keyOf v = Split (TrimSpace v) CHR ''='' ! 0"

definition validLine :: "(string \<rightharpoonup> 'f) \<Rightarrow> string \<Rightarrow> bool" where
  "validLine km v = (\<not> ignoredLine v \<and> keyValueForm v \<and> km (keyOf v) \<noteq> None)"

definition rejectedLine :: "(string \<rightharpoonup> 'f) \<Rightarrow> string \<Rightarrow> bool" where
  "rejectedLine km v = (\<not> ignoredLine v \<and> (\<not> keyValueForm v \<or> km (keyOf v) = None))"

definition lineError :: "string \<Rightarrow> error" where
  "lineError v =
    (if \<not> keyValueForm v then
       Error (''invalid row: '' @ v @ '', format should be '' @ [CHR 0x22] @ ''key=value''
               @ [CHR 0x22])
     else Error (''invalid key: '' @ keyOf v))"

definition requestOf :: "string \<Rightarrow> string \<times> string" where
  "requestOf v =
     (keyOf v, Trim (Trim (Split (TrimSpace v) CHR ''='' ! 1) (CHR 0x22)) (CHR 0x27))"

section \<open>Listing backups\<close>

text \<open>
  \<^verbatim>\<open>printer.Format\<close> (\<^verbatim>\<open>pkg/printer\<close>), the fields of \<^verbatim>\<open>action.ListOptions\<close> that
  \<^verbatim>\<open>PrintBackupList\<close> uses, and \<^verbatim>\<open>ListBackupOptions\<close>.
\<close>

datatype Format = Table | JSON | YAML | Wide

record ListOptions =
  l_Factory :: Factory
  l_GVR :: gvr
  l_Namespace :: string
  l_AllNamespaces :: bool
  l_LabelSelector :: string
  l_FieldSelector :: string
  l_Names :: "string list"
  l_Format :: Format

record ListBackupOptions =
  lb_ListOptions :: ListOptions
  lb_BackupName :: string

text \<open>
  What reaches the output stream: the message of \<^verbatim>\<open>PrintNotFoundResources\<close>, a table
  with its header and rows of cells, or the objects of a list serialised whole in a
  structured format.
\<close>

datatype printed =
    NotFoundResources
  | TablePrinted "string list" "string list list"
  | Structured Format "unstructured list"

text \<open>
  The formatting helpers called on the cells: \<^verbatim>\<open>util.TimeFormat\<close> (\<^verbatim>\<open>pkg/util\<close>),
  \<^verbatim>\<open>duration.HumanDuration\<close>, and the text \<^verbatim>\<open>fmt.Sprintf\<close> makes of the status and
  the \<^verbatim>\<open>*int32\<close> of available replicas (given here by the value it points to).
\<close>

record cells =
  TimeFormat :: "int option \<Rightarrow> string"
  HumanDuration :: "int \<Rightarrow> string"
  SprintfAvailablePods :: "string \<Rightarrow> 32 word \<Rightarrow> string"

text \<open>
  Modelled from the spec: the type \<^verbatim>\<open>unstructuredList\<close> and its \<^verbatim>\<open>Less\<close> method, which
  \<^verbatim>\<open>sort.Sort\<close> is applied to, are not among the sources.  The specification says
  "Tabular mode sorts by creation timestamp ascending before rendering", and the comment
  at the call "sort the unstructured objects with the creationTimestamp in positive
  order".  Objects with equal timestamps keep their order here; \<^verbatim>\<open>sort.Sort\<close> does not
  promise that.
\<close>

definition sortByCreationTimestamp :: "unstructured list \<Rightarrow> unstructured list" where
  "sortByCreationTimestamp items = sort_key GetCreationTimestamp items"

text \<open>The loop that fills \<^verbatim>\<open>backupNameMap\<close>, and the lookup in it.\<close>

definition nameMap :: "string list \<Rightarrow> (string \<rightharpoonup> bool)" where
  "nameMap names = fold (\<lambda>name m. m(name \<mapsto> True)) names Map.empty"

definition lookupBool :: "(string \<rightharpoonup> bool) \<Rightarrow> string \<Rightarrow> bool" where
  "lookupBool m k = (case m k of None \<Rightarrow> False | Some b \<Rightarrow> b)"

definition backupHeader :: "string list" where
  "backupHeader = [''NAME'', ''NAMESPACE'', ''SOURCE-CLUSTER'', ''METHOD'', ''STATUS'',
     ''TOTAL-SIZE'', ''DURATION'', ''CREATE-TIME'', ''COMPLETION-TIME'', ''EXPIRATION'']"

text \<open>The row \<^verbatim>\<open>tbl.AddRow\<close> receives for one backup.\<close>

definition backupRow :: "cells \<Rightarrow> Backup \<Rightarrow> string list" where
  "backupRow lib backup =
    (let sourceCluster = index (b_Labels backup) AppInstanceLabelKey;
         durationStr = (case b_Duration backup of
                          None \<Rightarrow> ''''
                        | Some d \<Rightarrow> HumanDuration lib d);
         statusString = b_Phase backup;
         availableReplicas =
           (case find (\<lambda>v. ActionType v = ActionTypeStatefulSet) (b_Actions backup) of
              None \<Rightarrow> None
            | Some v \<Rightarrow> AvailableReplicas v);
         statusString' = (case availableReplicas of
                            None \<Rightarrow> statusString
                          | Some n \<Rightarrow> SprintfAvailablePods lib statusString n)
     in [b_Name backup, b_Namespace backup, sourceCluster, b_BackupMethod backup,
         statusString', b_TotalSize backup, durationStr,
         TimeFormat lib (Some (b_CreationTimestamp backup)),
         TimeFormat lib (b_CompletionTimestamp backup),
         TimeFormat lib (b_Expiration backup)])"

text \<open>
  The loop of \<^verbatim>\<open>PrintBackupList\<close> over the sorted items; \<open>tbl\<close> holds the rows added
  so far.  A conversion error returns at once, before \<^verbatim>\<open>tbl.Print\<close>.
\<close>

fun addBackupRows ::
  "cells \<Rightarrow> string list \<Rightarrow> (string \<rightharpoonup> bool) \<Rightarrow> unstructured list \<Rightarrow> string list list
     \<Rightarrow> error + string list list" where
  "addBackupRows lib names backupNameMap [] tbl = Inr tbl"
| "addBackupRows lib names backupNameMap (obj # objs) tbl =
    (case FromUnstructured_Backup obj of
       Inl err \<Rightarrow> Inl err
     | Inr backup \<Rightarrow>
        if 0 < length names \<and> \<not> lookupBool backupNameMap (b_Name backup) then
          addBackupRows lib names backupNameMap objs tbl
        else addBackupRows lib names backupNameMap objs (tbl @ [backupRow lib backup]))"

text \<open>
  \<^verbatim>\<open>func PrintBackupList(o ListBackupOptions) error\<close>.  \<^verbatim>\<open>o.Run\<close> of
  \<^verbatim>\<open>action.ListOptions\<close> is the parameter \<open>run\<close>, giving what it prints and the error it
  returns.  The result is what is printed, and the returned error.
\<close>

definition PrintBackupList ::
  "(ListOptions \<Rightarrow> printed list \<times> error option) \<Rightarrow> cells \<Rightarrow> ListBackupOptions
     \<Rightarrow> printed list \<times> error option" where
  "PrintBackupList run lib opts =
    (let lo = lb_ListOptions opts;
         backupNameMap = nameMap (l_Names lo)
     in if l_Format lo = JSON \<or> l_Format lo = YAML then
          run (if lb_BackupName opts \<noteq> '''' then lo\<lparr>l_Names := [lb_BackupName opts]\<rparr>
               else lo)
        else
          (case f_DynamicClient (l_Factory lo) of
             Inl err \<Rightarrow> ([], Some err)
           | Inr dyn \<Rightarrow>
              (let lo1 = (if l_AllNamespaces lo then lo\<lparr>l_Namespace := ''''\<rparr> else lo) in
               case dyn_List dyn BackupGVR (l_Namespace lo1)
                      \<lparr>lo_LabelSelector = l_LabelSelector lo1,
                       lo_FieldSelector = l_FieldSelector lo1\<rparr> of
                 Inl err \<Rightarrow> ([], Some err)
               | Inr items \<Rightarrow>
                  if length items = 0 then ([NotFoundResources], None)
                  else
                    (case addBackupRows lib (l_Names lo1) backupNameMap
                            (sortByCreationTimestamp items) [] of
                       Inl err \<Rightarrow> ([], Some err)
                     | Inr rows \<Rightarrow> ([TablePrinted backupHeader rows], None)))))"

text \<open>
  Modelled from the spec: \<^verbatim>\<open>action.ListOptions.Run\<close> (\<^verbatim>\<open>pkg/action\<close>) is not among the
  sources.  The specification gives the generic list flow a structured mode, "JSON/YAML
  passthrough of the raw list": the objects the API server lists under the selectors,
  kept to the explicit names when names are given, and printed whole in the format.
\<close>

definition ListOptions_Run :: "ListOptions \<Rightarrow> printed list \<times> error option" where
  "ListOptions_Run lo =
    (case f_DynamicClient (l_Factory lo) of
       Inl err \<Rightarrow> ([], Some err)
     | Inr dyn \<Rightarrow>
        (case dyn_List dyn (l_GVR lo) (l_Namespace lo)
                \<lparr>lo_LabelSelector = l_LabelSelector lo,
                 lo_FieldSelector = l_FieldSelector lo\<rparr> of
           Inl err \<Rightarrow> ([], Some err)
         | Inr items \<Rightarrow>
            ([Structured (l_Format lo)
                (if l_Names lo = [] then items
                 else filter (\<lambda>obj. GetName obj \<in> set (l_Names lo)) items)], None)))"

section \<open>Fixtures\<close>

text \<open>
  Concrete collaborators for running the definitions on examples, in the manner of the
  fake clients of the repository's tests.  \<open>FakeDynamicClient\<close> serves a fixed list of
  objects: \<^verbatim>\<open>Get\<close> by resource, namespace and name, \<^verbatim>\<open>List\<close> by resource, namespace
  and an equality label selector, \<^verbatim>\<open>Update\<close> of an object that exists.
\<close>

definition newObject :: "string \<Rightarrow> string \<Rightarrow> unstructured" where
  "newObject ns name =
     \<lparr>GetName = name, GetNamespace = ns, GetLabels = Map.empty,
      GetAnnotations = Map.empty, GetCreationTimestamp = 0, convertError = None,
      spec_backupMethod = '''', spec_backupRepoName = None, status_phase = '''',
      status_totalSize = '''', status_duration = None, status_completionTimestamp = None,
      status_expiration = None, status_actions = []\<rparr>"

definition matchesLabel :: "string \<Rightarrow> unstructured \<Rightarrow> bool" where
  "matchesLabel selector obj =
    (selector = '''' \<or>
     (case Split selector CHR ''='' of
        [k, v] \<Rightarrow> index (GetLabels obj) k = v
      | _ \<Rightarrow> False))"

definition notFound :: "string \<Rightarrow> error" where
  "notFound name = Error (name @ '' not found'')"

definition FakeDynamicClient :: "(gvr \<times> unstructured) list \<Rightarrow> dynamic" where
  "FakeDynamicClient objs =
    \<lparr>dyn_Get = (\<lambda>g ns name.
        case find (\<lambda>(g', obj). g' = g \<and> GetNamespace obj = ns \<and> GetName obj = name) objs of
          None \<Rightarrow> Inl (notFound name)
        | Some (_, obj) \<Rightarrow> Inr obj),
     dyn_List = (\<lambda>g ns lo.
        Inr (map snd (filter (\<lambda>(g', obj). g' = g \<and> (ns = '''' \<or> GetNamespace obj = ns)
                                \<and> matchesLabel (lo_LabelSelector lo) obj) objs))),
     dyn_Update = (\<lambda>g ns obj.
        case find (\<lambda>(g', old). g' = g \<and> GetNamespace old = ns
                                \<and> GetName old = GetName obj) objs of
          None \<Rightarrow> Inl (notFound (GetName obj))
        | Some _ \<Rightarrow> Inr obj)\<rparr>"

text \<open>
  A namespace \<open>default\<close> with the cluster \<open>mycluster\<close>, its default backup policy, a
  second policy, a completed backup \<open>parent1\<close>, a running backup \<open>parent2\<close>, a completed
  backup \<open>other1\<close> of another cluster, and the backup repository \<open>repo1\<close>.
\<close>

definition fixtureObjects :: "(gvr \<times> unstructured) list" where
  "fixtureObjects =
    [(ClusterGVR, newObject ''default'' ''mycluster''),
     (BackupPolicyGVR, (newObject ''default'' ''my-policy'')
        \<lparr>GetLabels := [AppInstanceLabelKey \<mapsto> ''mycluster''],
         GetAnnotations := [DefaultBackupPolicyAnnotationKey \<mapsto> ''true'']\<rparr>),
     (BackupPolicyGVR, (newObject ''default'' ''hourly-policy'')
        \<lparr>GetLabels := [AppInstanceLabelKey \<mapsto> ''mycluster'']\<rparr>),
     (BackupGVR, (newObject ''default'' ''parent2'')
        \<lparr>GetLabels := [AppInstanceLabelKey \<mapsto> ''mycluster''],
         GetCreationTimestamp := 1686942000, spec_backupMethod := ''volume-snapshot'',
         status_phase := ''Running''\<rparr>),
     (BackupGVR, (newObject ''default'' ''parent1'')
        \<lparr>GetLabels := [AppInstanceLabelKey \<mapsto> ''mycluster''],
         GetCreationTimestamp := 1686938400, spec_backupMethod := ''volume-snapshot'',
         status_phase := ''Completed''\<rparr>),
     (BackupGVR, (newObject ''default'' ''other1'')
        \<lparr>GetLabels := [AppInstanceLabelKey \<mapsto> ''othercluster''],
         GetCreationTimestamp := 1686940000, spec_backupMethod := ''volume-snapshot'',
         status_phase := ''Completed''\<rparr>),
     (BackupRepoGVR, newObject '''' ''repo1'')]"

definition fixtureFactory :: Factory where
  "fixtureFactory =
     \<lparr>f_Namespace = Inr ''default'',
      f_DynamicClient = Inr (FakeDynamicClient fixtureObjects)\<rparr>"

text \<open>
  Modelled from the spec: \<^verbatim>\<open>action.CreateOptions.Complete\<close> (\<^verbatim>\<open>pkg/action\<close>) is not
  among the sources.  By the specification, "\<^verbatim>\<open>Complete()\<close> populates namespace/client
  fields from ambient configuration".  It only instantiates the parameter \<open>Complete\<close>
  at concrete inputs.
\<close>

definition CreateOptions_Complete :: "Factory \<Rightarrow> CreateOptions \<Rightarrow> error + CreateOptions" where
  "CreateOptions_Complete f co =
    (case f_Namespace f of
       Inl err \<Rightarrow> Inl err
     | Inr ns \<Rightarrow>
        (case f_DynamicClient f of
           Inl err \<Rightarrow> Inl err
         | Inr dyn \<Rightarrow> Inr (co\<lparr>Namespace := ns, Dynamic := dyn\<rparr>)))"

text \<open>
  The options of \<^verbatim>\<open>kbcli cluster backup mycluster --method volume-snapshot --policy P
  --parent-backup B\<close>, once completed.
\<close>

definition backupOptions :: "string \<Rightarrow> string \<Rightarrow> CreateBackupOptions" where
  "backupOptions P B =
     \<lparr>BackupSpec = \<lparr>BackupName = '''', BackupPolicyName = P,
                    BackupMethod = ''volume-snapshot'', DeletionPolicy = ''Delete'',
                    RetentionPeriod = '''', ParentBackupName = B\<rparr>,
      ClusterRef = '''', OpsType = '''', OpsRequestName = '''',
      CreateOptions = \<lparr>Name = ''mycluster'', Namespace = ''default'',
                       Args = [''mycluster''],
                       Dynamic = FakeDynamicClient fixtureObjects\<rparr>\<rparr>"

definition fixtureNow :: time where
  "fixtureNow = \<lparr>Year = 2023, Month = 6, Day = 16, Hour = 19, Minute = 0, Second = 23\<rparr>"

text \<open>
  \<^verbatim>\<open>kbcli cluster edit-backup-policy my-policy\<close> on the fixture: the options as
  \<open>complete\<close> leaves them (\<open>editOptions\<close>, written out as \<open>fixtureEditOptions\<close>),
  with the given original text and lines, and the state \<^verbatim>\<open>applyChanges\<close> starts in on
  the policy fetched.
\<close>

definition editOptions :: "string \<Rightarrow> string list \<Rightarrow> error + editBackupPolicyOptions" where
  "editOptions text lines =
     complete \<lparr>e_namespace = '''', e_name = '''',
               e_dynamic = FakeDynamicClient [], e_Factory = fixtureFactory,
               editContent = [], editContentKeyMap = Map.empty, original = text,
               target = '''', e_values = lines, isTest = True, e_Out = []\<rparr>
       [''my-policy'']"

definition fixtureEditOptions :: "string \<Rightarrow> string list \<Rightarrow> editBackupPolicyOptions" where
  "fixtureEditOptions text lines =
     \<lparr>e_namespace = ''default'', e_name = ''my-policy'',
      e_dynamic = FakeDynamicClient fixtureObjects, e_Factory = fixtureFactory,
      editContent = [\<lparr>key = ''backupRepoName'', jsonpath = ''backupRepoName'',
                      updateFunc = Some (updateRepoName (FakeDynamicClient fixtureObjects))\<rparr>],
      editContentKeyMap =
        [''backupRepoName'' \<mapsto> updateRepoName (FakeDynamicClient fixtureObjects)],
      original = text, target = '''', e_values = lines, isTest = True, e_Out = []\<rparr>"

definition fixturePolicy :: BackupPolicy where
  "fixturePolicy =
     \<lparr>bp_Name = ''my-policy'', bp_Namespace = ''default'',
      bp_Labels = [AppInstanceLabelKey \<mapsto> ''mycluster''],
      bp_Annotations = [DefaultBackupPolicyAnnotationKey \<mapsto> ''true''],
      bp_CreationTimestamp = 0, bp_BackupRepoName = None, bp_Phase = ''''\<rparr>"

definition fixtureRun :: "string \<Rightarrow> string list \<Rightarrow> editRun" where
  "fixtureRun text lines =
     \<lparr>this = fixtureEditOptions text lines, backupPolicy = fixturePolicy, invoked = [],
      sent = []\<rparr>"

text \<open>
  \<^verbatim>\<open>kbcli cluster list-backups\<close> on the fixture, in a given format and with the names
  and the \<^verbatim>\<open>--name\<close> value given; and helpers that print times and durations as
  decimal numbers.
\<close>

definition listBackupOptions :: "Format \<Rightarrow> string list \<Rightarrow> string \<Rightarrow> ListBackupOptions" where
  "listBackupOptions fmt names name =
     \<lparr>lb_ListOptions =
        \<lparr>l_Factory = fixtureFactory, l_GVR = BackupGVR, l_Namespace = ''default'',
         l_AllNamespaces = False, l_LabelSelector = '''', l_FieldSelector = '''',
         l_Names = names, l_Format = fmt\<rparr>,
      lb_BackupName = name\<rparr>"

definition fixtureCells :: cells where
  "fixtureCells =
     \<lparr>TimeFormat = (\<lambda>t. case t of None \<Rightarrow> '''' | Some n \<Rightarrow> decimal (nat n)),
      HumanDuration = (\<lambda>d. decimal (nat d)),
      SprintfAvailablePods = (\<lambda>status n.
        status @ ''(AvailablePods: '' @ decimal (unat n) @ '')'')\<rparr>"

section \<open>Properties\<close>

subsection \<open>Account options\<close>

text \<open>
  C10.  \<^verbatim>\<open>AccountBaseOptions.Validate\<close> checks, in this order: more than one argument,
  \<^verbatim>\<open>--instance\<close> together with \<^verbatim>\<open>--component\<close>, \<^verbatim>\<open>--instance\<close> together with an
  argument, neither \<^verbatim>\<open>--instance\<close> nor an argument.  It returns \<^verbatim>\<open>nil\<close> exactly when
  one of a single cluster-name argument and the \<^verbatim>\<open>--instance\<close> pod name is given and
  \<^verbatim>\<open>--instance\<close> comes with neither \<^verbatim>\<open>--component\<close> nor an argument; with one argument
  the cluster name is then that argument.
\<close>

theorem AccountBaseOptions_Validate_order:
  "AccountBaseOptions_Validate opts args =
     (if 1 < length args then Inl errClusterNameNum
      else if PodName opts \<noteq> [] \<and> ComponentName opts \<noteq> [] then Inl errCompNameOrInstName
      else if PodName opts \<noteq> [] \<and> args \<noteq> [] then Inl errClusterNameorInstName
      else if PodName opts = [] \<and> args = [] then Inl errClusterNameorInstName
      else Inr (if args = [] then opts else opts\<lparr>ClusterName := hd args\<rparr>))
   \<and> (isl (AccountBaseOptions_Validate opts args) =
        (\<not> ((length args = 1) \<noteq> (PodName opts \<noteq> []))
         \<or> (PodName opts \<noteq> [] \<and> ComponentName opts \<noteq> [])
         \<or> (PodName opts \<noteq> [] \<and> args \<noteq> [])))
   \<and> (\<forall>a. PodName opts = [] \<longrightarrow>
          AccountBaseOptions_Validate opts [a] = Inr (opts\<lparr>ClusterName := a\<rparr>))"
proof -
  consider (none) "args = []" | (one) a where "args = [a]" | (more) "1 < length args"
    by (cases args; cases "tl args") auto
  then have first: "AccountBaseOptions_Validate opts args =
     (if 1 < length args then Inl errClusterNameNum
      else if PodName opts \<noteq> [] \<and> ComponentName opts \<noteq> [] then Inl errCompNameOrInstName
      else if PodName opts \<noteq> [] \<and> args \<noteq> [] then Inl errClusterNameorInstName
      else if PodName opts = [] \<and> args = [] then Inl errClusterNameorInstName
      else Inr (if args = [] then opts else opts\<lparr>ClusterName := hd args\<rparr>))"
    by cases (simp_all add: AccountBaseOptions_Validate_def)
  have second: "isl (AccountBaseOptions_Validate opts args) =
        (\<not> ((length args = 1) \<noteq> (PodName opts \<noteq> []))
         \<or> (PodName opts \<noteq> [] \<and> ComponentName opts \<noteq> [])
         \<or> (PodName opts \<noteq> [] \<and> args \<noteq> []))"
    unfolding first by (cases args; cases "tl args") auto
  have third: "\<forall>a. PodName opts = [] \<longrightarrow>
          AccountBaseOptions_Validate opts [a] = Inr (opts\<lparr>ClusterName := a\<rparr>)"
    by (simp add: AccountBaseOptions_Validate_def)
  from first second third show ?thesis by blast
qed

theorem AccountBaseOptions_Validate_order_witness:
  "AccountBaseOptions_Validate
     \<lparr>ClusterName = '''', CharType = '''', ComponentName = ''mysql'', PodName = '''',
      Verbose = False\<rparr> [''apple'']
   = Inr \<lparr>ClusterName = ''apple'', CharType = '''', ComponentName = ''mysql'', PodName = '''',
      Verbose = False\<rparr>
   \<and> AccountBaseOptions_Validate
     \<lparr>ClusterName = '''', CharType = '''', ComponentName = ''mysql'', PodName = ''apple-0'',
      Verbose = False\<rparr> []
   = Inl errCompNameOrInstName"
  using AccountBaseOptions_Validate_order
          [of "\<lparr>ClusterName = '''', CharType = '''', ComponentName = ''mysql'', PodName = '''',
                Verbose = False\<rparr>" "[''apple'']"]
        AccountBaseOptions_Validate_order
          [of "\<lparr>ClusterName = '''', CharType = '''', ComponentName = ''mysql'',
                PodName = ''apple-0'', Verbose = False\<rparr>" "[]"]
  by simp

subsection \<open>Deleting backups\<close>

text \<open>
  C1.  With no \<^verbatim>\<open>--name\<close> value and \<^verbatim>\<open>--force\<close> unset, \<^verbatim>\<open>completeForDeleteBackup\<close>
  returns an error whatever the arguments are, and the command exits before \<^verbatim>\<open>o.Run\<close>.
\<close>

theorem completeForDeleteBackup_needs_name:
  assumes "length (Names opts) = 0" and "\<not> Force opts"
  shows "completeForDeleteBackup build opts args =
           Inl (if args = [] then Error ''Missing cluster name''
                else if 1 < length args then
                  Error ''Only supported delete the Backup of one cluster''
                else Error ''Missing --name as backup name.'')
         \<and> NewDeleteBackupCmd_Run build run opts args =
           Inl (if args = [] then Error ''Missing cluster name''
                else if 1 < length args then
                  Error ''Only supported delete the Backup of one cluster''
                else Error ''Missing --name as backup name.'')"
  using assms by (simp add: completeForDeleteBackup_def NewDeleteBackupCmd_Run_def)

theorem completeForDeleteBackup_needs_name_witness:
  "completeForDeleteBackup BuildLabelSelectorByNames
     \<lparr>Names = [], ConfirmedNames = [], Force = False, LabelSelector = ''''\<rparr> [''mycluster'']
   = Inl (Error ''Missing --name as backup name.'')
   \<and> NewDeleteBackupCmd_Run BuildLabelSelectorByNames (\<lambda>opts. ())
        \<lparr>Names = [], ConfirmedNames = [], Force = False, LabelSelector = ''''\<rparr>
        [''mycluster'']
   = Inl (Error ''Missing --name as backup name.'')"
  using completeForDeleteBackup_needs_name
          [of "\<lparr>Names = [], ConfirmedNames = [], Force = False, LabelSelector = ''''\<rparr>"
              BuildLabelSelectorByNames "[''mycluster'']" "\<lambda>opts. ()"]
  by simp

text \<open>
  C9.  Whenever \<^verbatim>\<open>completeForDeleteBackup\<close> returns \<^verbatim>\<open>nil\<close>, \<^verbatim>\<open>ConfirmedNames\<close> is
  \<^verbatim>\<open>Names\<close>.  On the force path (\<^verbatim>\<open>--force\<close> and no \<^verbatim>\<open>--name\<close>) the arguments
  assigned to \<^verbatim>\<open>ConfirmedNames\<close> are overwritten by the empty \<^verbatim>\<open>Names\<close>, and the label
  selector computed from the arguments stays.
\<close>

theorem completeForDeleteBackup_ConfirmedNames:
  assumes "completeForDeleteBackup build opts args = Inr opts'"
  shows "ConfirmedNames opts' = Names opts' \<and> Names opts' = Names opts
         \<and> Force opts' = Force opts
         \<and> (if Force opts \<and> Names opts = [] then
               ConfirmedNames opts' = [] \<and>
               LabelSelector opts' = build (LabelSelector opts) args
             else LabelSelector opts' = LabelSelector opts)"
  using assms by (auto simp: completeForDeleteBackup_def Let_def split: if_splits)

theorem completeForDeleteBackup_ConfirmedNames_witness:
  "completeForDeleteBackup BuildLabelSelectorByNames
     \<lparr>Names = [], ConfirmedNames = [], Force = True, LabelSelector = ''''\<rparr> [''mycluster'']
   = Inr \<lparr>Names = [], ConfirmedNames = [], Force = True,
          LabelSelector = ''app.kubernetes.io/instance in (mycluster)''\<rparr>
   \<and> ConfirmedNames \<lparr>Names = [], ConfirmedNames = [], Force = True,
          LabelSelector = ''app.kubernetes.io/instance in (mycluster)''\<rparr> = []
   \<and> ''app.kubernetes.io/instance in (mycluster)''
       = BuildLabelSelectorByNames '''' [''mycluster'']"
proof -
  have run: "completeForDeleteBackup BuildLabelSelectorByNames
     \<lparr>Names = [], ConfirmedNames = [], Force = True, LabelSelector = ''''\<rparr> [''mycluster'']
   = Inr \<lparr>Names = [], ConfirmedNames = [], Force = True,
          LabelSelector = ''app.kubernetes.io/instance in (mycluster)''\<rparr>"
    by (simp add: completeForDeleteBackup_def BuildLabelSelectorByNames_def
        AppInstanceLabelKey_def)
  from completeForDeleteBackup_ConfirmedNames [OF run] run show ?thesis
    by simp
qed

subsection \<open>Creating a backup\<close>

lemma digit_in_digits: "digit n \<in> set ''0123456789''"
proof -
  have "n mod 10 < length ''0123456789''" by simp
  then have "''0123456789'' ! (n mod 10) \<in> set ''0123456789''"
    by (rule nth_mem)
  then show ?thesis by (simp only: digit_def)
qed

lemma set_decimal: "set (decimal n) \<subseteq> set ''0123456789''"
proof (induction n rule: decimal.induct)
  case (1 n)
  show ?case
  proof (cases "n < 10")
    case True
    then have "decimal n = [digit n]" by (subst decimal.simps) simp
    with digit_in_digits [of n] show ?thesis by simp
  next
    case False
    then have "decimal n = decimal (n div 10) @ [digit n]" by (subst decimal.simps) simp
    with "1" False digit_in_digits [of n] show ?thesis by simp
  qed
qed

lemma length_decimal: "0 < w \<Longrightarrow> n < 10 ^ w \<Longrightarrow> length (decimal n) \<le> w"
proof (induction n arbitrary: w rule: decimal.induct)
  case (1 n)
  show ?case
  proof (cases "n < 10")
    case True
    then have "decimal n = [digit n]" by (subst decimal.simps) simp
    with "1.prems" show ?thesis by simp
  next
    case False
    obtain v where w: "w = Suc v" using "1.prems"(1) by (cases w) auto
    from False "1.prems"(2) w have "0 < v" by (cases v) auto
    moreover from "1.prems"(2) w have "n div 10 < 10 ^ v"
      by (simp add: less_mult_imp_div_less mult.commute)
    ultimately have "length (decimal (n div 10)) \<le> v"
      using "1.IH" [OF False] by blast
    moreover have "decimal n = decimal (n div 10) @ [digit n]"
      using False by (subst decimal.simps) simp
    ultimately show ?thesis using w by simp
  qed
qed

lemma length_appendInt: "0 < w \<Longrightarrow> n < 10 ^ w \<Longrightarrow> length (appendInt n w) = w"
  using length_decimal [of w n] by (simp add: appendInt_def)

lemma set_appendInt: "set (appendInt n w) \<subseteq> set ''0123456789''"
  using set_decimal [of n] by (auto simp: appendInt_def)

lemma Format_20060102150405_shape:
  assumes "Year t < 10000" "Month t < 100" "Day t < 100" "Hour t < 100" "Minute t < 100"
    "Second t < 100"
  shows "length (Format_20060102150405 t) = 14"
    and "set (Format_20060102150405 t) \<subseteq> set ''0123456789''"
proof -
  show "length (Format_20060102150405 t) = 14"
    using assms by (simp add: Format_20060102150405_def length_appendInt)
  show "set (Format_20060102150405 t) \<subseteq> set ''0123456789''"
    using set_appendInt unfolding Format_20060102150405_def set_append by blast
qed

text \<open>
  C7.  With an empty \<^verbatim>\<open>--name\<close>, and \<^verbatim>\<open>Complete\<close> of the embedded options returning
  \<^verbatim>\<open>nil\<close> at both calls, \<^verbatim>\<open>CompleteBackup\<close> returns \<^verbatim>\<open>nil\<close> with the backup name
  \<^verbatim>\<open>backup-<namespace>-<cluster>-<timestamp>\<close>, where namespace and cluster name are
  those left by the first \<^verbatim>\<open>Complete\<close> and the timestamp is fourteen decimal digits
  (year, month, day, hour, minute, second) for a clock reading up to the year 9999;
  the OpsRequest name is the backup name and \<^verbatim>\<open>ClusterRef\<close> is the cluster name.
\<close>

theorem CompleteBackup_generated_name:
  assumes "BackupName (BackupSpec opts) = ''''"
    and "Complete (CreateOptions opts) = Inr c1"
    and "Complete c1 = Inr c2"
  shows "\<exists>opts'. CompleteBackup Complete now opts = Inr opts'
           \<and> BackupName (BackupSpec opts') =
               ''backup-'' @ Namespace c1 @ ''-'' @ Name c1 @ ''-'' @ Format_20060102150405 now
           \<and> OpsRequestName opts' = BackupName (BackupSpec opts')
           \<and> ClusterRef opts' = Name c1
           \<and> OpsType opts' = BackupType
           \<and> CreateOptions opts' = c2
           \<and> (Year now < 10000 \<and> Month now < 100 \<and> Day now < 100 \<and> Hour now < 100
                \<and> Minute now < 100 \<and> Second now < 100 \<longrightarrow>
              length (Format_20060102150405 now) = 14
                \<and> set (Format_20060102150405 now) \<subseteq> set ''0123456789'')"
proof -
  have "CompleteBackup Complete now opts =
      Inr (opts\<lparr>CreateOptions := c2,
             BackupSpec := (BackupSpec opts)\<lparr>BackupName :=
               ''backup-'' @ Namespace c1 @ ''-'' @ Name c1 @ ''-''
                 @ Format_20060102150405 now\<rparr>,
             OpsType := BackupType,
             OpsRequestName :=
               ''backup-'' @ Namespace c1 @ ''-'' @ Name c1 @ ''-''
                 @ Format_20060102150405 now,
             ClusterRef := Name c1\<rparr>)"
    using assms by (simp add: CompleteBackup_def Let_def)
  then show ?thesis
    using Format_20060102150405_shape [of now] by simp
qed

theorem CompleteBackup_generated_name_witness:
  "map_sum message OpsRequestName
     (CompleteBackup (CreateOptions_Complete fixtureFactory) fixtureNow
        (backupOptions ''my-policy'' ''parent1''))
   = Inr ''backup-default-mycluster-20230616190023''
   \<and> map_sum message ClusterRef
     (CompleteBackup (CreateOptions_Complete fixtureFactory) fixtureNow
        (backupOptions ''my-policy'' ''parent1''))
   = Inr ''mycluster''"
proof -
  let ?c = "\<lparr>Name = ''mycluster'', Namespace = ''default'', Args = [''mycluster''],
             Dynamic = FakeDynamicClient fixtureObjects\<rparr>"
  have name: "BackupName (BackupSpec (backupOptions ''my-policy'' ''parent1'')) = ''''"
    by (simp add: backupOptions_def)
  have first: "CreateOptions_Complete fixtureFactory
      (CreateOptions (backupOptions ''my-policy'' ''parent1'')) = Inr ?c"
    by (simp add: CreateOptions_Complete_def fixtureFactory_def backupOptions_def)
  have second: "CreateOptions_Complete fixtureFactory ?c = Inr ?c"
    by (simp add: CreateOptions_Complete_def fixtureFactory_def)
  from CompleteBackup_generated_name [OF name first second, of fixtureNow]
  obtain opts' where
    "CompleteBackup (CreateOptions_Complete fixtureFactory) fixtureNow
       (backupOptions ''my-policy'' ''parent1'') = Inr opts'"
    "OpsRequestName opts' =
       ''backup-'' @ Namespace ?c @ ''-'' @ Name ?c @ ''-'' @ Format_20060102150405 fixtureNow"
    "ClusterRef opts' = Name ?c"
    by auto
  moreover have "Format_20060102150405 fixtureNow = ''20230616190023''"
    by (simp add: Format_20060102150405_def appendInt_def digit_def fixtureNow_def
        decimal.simps)
  ultimately show ?thesis by simp
qed

lemma completeDefaultBackupPolicy_Inr:
  assumes "completeDefaultBackupPolicy opts = Inr o1"
  shows "\<exists>p. getDefaultBackupPolicy opts = Inr p
           \<and> o1 = opts\<lparr>BackupSpec := (BackupSpec opts)\<lparr>BackupPolicyName := p\<rparr>\<rparr>"
  using assms by (auto simp: completeDefaultBackupPolicy_def split: sum.splits)

lemma Validate_policy_Inr:
  assumes "Validate_policy ToDuration o1 = Inr o2"
  shows "o2 = o1"
  using assms by (auto simp: Validate_policy_def Let_def split: sum.splits if_splits)

lemma resolve_policy_frame:
  assumes "(if BackupPolicyName (BackupSpec opts) = '''' then completeDefaultBackupPolicy opts
            else Inr opts) = Inr o1"
  shows "CreateOptions o1 = CreateOptions opts"
    and "ParentBackupName (BackupSpec o1) = ParentBackupName (BackupSpec opts)"
proof -
  have "\<exists>p. o1 = opts\<lparr>BackupSpec := (BackupSpec opts)\<lparr>BackupPolicyName := p\<rparr>\<rparr>"
  proof (cases "BackupPolicyName (BackupSpec opts) = ''''")
    case True
    with assms have "completeDefaultBackupPolicy opts = Inr o1"
      by (simp only: if_True simp_thms)
    from completeDefaultBackupPolicy_Inr [OF this] show ?thesis by blast
  next
    case False
    with assms have "Inr opts = (Inr o1 :: error + CreateBackupOptions)"
      by (simp only: if_False simp_thms)
    then have "o1 = opts" by simp
    then have "o1 = opts\<lparr>BackupSpec := (BackupSpec opts)\<lparr>BackupPolicyName :=
        BackupPolicyName (BackupSpec opts)\<rparr>\<rparr>" by simp
    then show ?thesis by blast
  qed
  then obtain p where "o1 = opts\<lparr>BackupSpec := (BackupSpec opts)\<lparr>BackupPolicyName := p\<rparr>\<rparr>"
    by blast
  then show "CreateOptions o1 = CreateOptions opts"
    and "ParentBackupName (BackupSpec o1) = ParentBackupName (BackupSpec opts)"
    by simp_all
qed

lemma Validate_parentBackup_rejects:
  assumes "ParentBackupName (BackupSpec opts) \<noteq> ''''"
    and "dyn_Get (Dynamic (CreateOptions opts)) BackupGVR (Namespace (CreateOptions opts))
           (ParentBackupName (BackupSpec opts)) = Inr obj"
    and "FromUnstructured_Backup obj = Inr parentBackup"
    and "b_Phase parentBackup \<noteq> BackupPhaseCompleted
         \<or> index (b_Labels parentBackup) AppInstanceLabelKey \<noteq> Name (CreateOptions opts)"
  shows "Validate_parentBackup opts =
     Inl (Error (if b_Phase parentBackup \<noteq> BackupPhaseCompleted then
                   ''parent backup '' @ ParentBackupName (BackupSpec opts)
                     @ '' is not completed''
                 else ''parent backup '' @ ParentBackupName (BackupSpec opts)
                     @ '' is not belong to cluster '' @ Name (CreateOptions opts)))"
  using assms by (auto simp: Validate_parentBackup_def Let_def)

text \<open>
  C2.  Let a parent backup name be given, and let the lookup of that name answer with a
  backup whose phase is not \<^verbatim>\<open>Completed\<close>, or whose instance label is not the cluster
  name.  Then \<^verbatim>\<open>Validate\<close> returns an error; and when the checks that precede the
  lookup pass (cluster name, backup policy, method, retention period), the error is
  "parent backup ... is not completed", or "parent backup ... is not belong to cluster
  ..." for a completed backup of another cluster, and its message contains the parent's
  name.
\<close>

theorem Validate_rejects_parent:
  assumes "ParentBackupName (BackupSpec opts) \<noteq> ''''"
    and "dyn_Get (Dynamic (CreateOptions opts)) BackupGVR (Namespace (CreateOptions opts))
           (ParentBackupName (BackupSpec opts)) = Inr obj"
    and "FromUnstructured_Backup obj = Inr parentBackup"
    and "b_Phase parentBackup \<noteq> BackupPhaseCompleted
         \<or> index (b_Labels parentBackup) AppInstanceLabelKey \<noteq> Name (CreateOptions opts)"
  shows "\<exists>e. Validate ToDuration opts = Inl e
     \<and> (Name (CreateOptions opts) \<noteq> '''' \<longrightarrow>
        (if BackupPolicyName (BackupSpec opts) = '''' then completeDefaultBackupPolicy opts
         else Inr opts) = Inr o1 \<longrightarrow>
        Validate_policy ToDuration o1 = Inr o2 \<longrightarrow>
          e = Error (if b_Phase parentBackup \<noteq> BackupPhaseCompleted then
                       ''parent backup '' @ ParentBackupName (BackupSpec opts)
                         @ '' is not completed''
                     else ''parent backup '' @ ParentBackupName (BackupSpec opts)
                         @ '' is not belong to cluster '' @ Name (CreateOptions opts))
          \<and> sublist (ParentBackupName (BackupSpec opts)) (message e))"
proof -
  let ?resolve = "if BackupPolicyName (BackupSpec opts) = '''' then
      completeDefaultBackupPolicy opts else Inr opts"
  let ?msg = "if b_Phase parentBackup \<noteq> BackupPhaseCompleted then
                ''parent backup '' @ ParentBackupName (BackupSpec opts) @ '' is not completed''
              else ''parent backup '' @ ParentBackupName (BackupSpec opts)
                @ '' is not belong to cluster '' @ Name (CreateOptions opts)"
  have reject: "Validate_parentBackup o' = Inl (Error ?msg)"
    if "?resolve = Inr o'" for o'
  proof -
    from resolve_policy_frame [OF that]
    have "CreateOptions o' = CreateOptions opts"
      and "ParentBackupName (BackupSpec o') = ParentBackupName (BackupSpec opts)"
      by simp_all
    with assms Validate_parentBackup_rejects [of o' obj parentBackup] show ?thesis
      by simp
  qed
  have inside: "sublist p (before @ p @ after)" for p before after :: string
    by (rule sublist_appendI)
  have contains: "sublist (ParentBackupName (BackupSpec opts)) ?msg"
    by (cases "b_Phase parentBackup \<noteq> BackupPhaseCompleted")
      (simp_all only: if_True if_False not_False_eq_True not_True_eq_False inside)
  show ?thesis
  proof (cases "Name (CreateOptions opts) = ''''")
    case True
    then show ?thesis by (simp add: Validate_def)
  next
    case named: False
    show ?thesis
    proof (cases ?resolve)
      case (Inl err)
      with named show ?thesis by (simp add: Validate_def)
    next
      case resolved: (Inr r1)
      show ?thesis
      proof (cases "Validate_policy ToDuration r1")
        case (Inl err)
        with named resolved have "Validate ToDuration opts = Inl err"
          by (simp add: Validate_def)
        moreover from Inl resolved have "\<not> (?resolve = Inr o1 \<and>
            Validate_policy ToDuration o1 = Inr o2)" by auto
        ultimately show ?thesis by auto
      next
        case (Inr r2)
        from Validate_policy_Inr [OF Inr] have "r2 = r1" .
        with named resolved Inr reject [OF resolved]
        have "Validate ToDuration opts = Inl (Error ?msg)"
          by (simp add: Validate_def)
        with contains show ?thesis by simp
      qed
    qed
  qed
qed

theorem Validate_rejects_parent_witness:
  "Validate (\<lambda>s. Inr 0) (backupOptions ''my-policy'' ''parent2'')
     = Inl (Error ''parent backup parent2 is not completed'')
   \<and> sublist ''parent2'' ''parent backup parent2 is not completed''"
proof -
  let ?opts = "backupOptions ''my-policy'' ''parent2''"
  let ?obj = "(newObject ''default'' ''parent2'')
        \<lparr>GetLabels := [AppInstanceLabelKey \<mapsto> ''mycluster''],
         GetCreationTimestamp := 1686942000, spec_backupMethod := ''volume-snapshot'',
         status_phase := ''Running''\<rparr>"
  have given: "ParentBackupName (BackupSpec ?opts) \<noteq> ''''"
    by (simp add: backupOptions_def)
  have fetched: "dyn_Get (Dynamic (CreateOptions ?opts)) BackupGVR
      (Namespace (CreateOptions ?opts)) (ParentBackupName (BackupSpec ?opts)) = Inr ?obj"
    by (simp add: backupOptions_def FakeDynamicClient_def fixtureObjects_def newObject_def)
  obtain parentBackup where conv: "FromUnstructured_Backup ?obj = Inr parentBackup"
    and phase: "b_Phase parentBackup = ''Running''"
    by (simp add: FromUnstructured_Backup_def newObject_def)
  from phase have running: "b_Phase parentBackup \<noteq> BackupPhaseCompleted
      \<or> index (b_Labels parentBackup) AppInstanceLabelKey \<noteq> Name (CreateOptions ?opts)"
    by (simp add: BackupPhaseCompleted_def)
  have named: "Name (CreateOptions ?opts) \<noteq> ''''"
    by (simp add: backupOptions_def)
  have resolved: "(if BackupPolicyName (BackupSpec ?opts) = '''' then
      completeDefaultBackupPolicy ?opts else Inr ?opts) = Inr ?opts"
    by (simp add: backupOptions_def)
  have policy: "Validate_policy (\<lambda>s. Inr 0) ?opts = Inr ?opts"
    by (simp add: Validate_policy_def Let_def backupOptions_def FakeDynamicClient_def
        fixtureObjects_def newObject_def FromUnstructured_BackupPolicy_def)
  from Validate_rejects_parent [OF given fetched conv running, of "\<lambda>s. Inr 0" ?opts ?opts]
    named resolved policy phase
  show ?thesis
    by (auto simp: BackupPhaseCompleted_def backupOptions_def)
qed

lemma Validate_parentBackup_Inr:
  assumes "Validate_parentBackup o1 = Inr o2"
  shows "o2 = o1"
  using assms
  by (auto simp: Validate_parentBackup_def Let_def split: sum.splits if_splits)

lemma getDefaultBackupPolicy_listed:
  assumes "dyn_Get (Dynamic (CreateOptions opts)) ClusterGVR (Namespace (CreateOptions opts))
             (Name (CreateOptions opts)) = Inr clusterObj"
    and "dyn_List (Dynamic (CreateOptions opts)) BackupPolicyGVR
             (Namespace (CreateOptions opts))
             \<lparr>lo_LabelSelector = AppInstanceLabelKey @ ''='' @ GetName clusterObj,
              lo_FieldSelector = ''''\<rparr> = Inr items"
  shows "getDefaultBackupPolicy opts =
    (let defaults = filter (\<lambda>obj. index (GetAnnotations obj)
                                DefaultBackupPolicyAnnotationKey = TrueValue) items
     in if items = [] then
          Inl (Error (''not found any backup policy for cluster '' @ [CHR 0x22]
                       @ Name (CreateOptions opts) @ [CHR 0x22]))
        else if defaults = [] then
          Inl (Error (''not found any default backup policy for cluster '' @ [CHR 0x22]
                       @ Name (CreateOptions opts) @ [CHR 0x22]))
        else if 1 < length defaults then
          Inl (Error (''cluster '' @ [CHR 0x22] @ Name (CreateOptions opts) @ [CHR 0x22]
                       @ '' has multiple default backup policies''))
        else Inr (GetName (hd defaults)))"
  using assms
  by (simp add: getDefaultBackupPolicy_def Let_def hd_conv_nth)

text \<open>
  C8.  With \<^verbatim>\<open>--policy\<close> empty, a cluster name given, the cluster found and its backup
  policies listed under the selector \<^verbatim>\<open>app.kubernetes.io/instance=<cluster>\<close>,
  \<^verbatim>\<open>Validate\<close> returns an error when the list is empty, when no listed policy has the
  default annotation set to \<^verbatim>\<open>true\<close>, and when more than one has; with exactly one
  it takes that policy's name and goes on validating with it, so that a \<^verbatim>\<open>nil\<close>
  return leaves that name in the options.  In the command, \<^verbatim>\<open>o.Run\<close>, which submits
  the request, is reached only through a \<^verbatim>\<open>nil\<close> return of \<^verbatim>\<open>Validate\<close>.
\<close>

theorem Validate_default_policy:
  assumes "Name (CreateOptions opts) \<noteq> ''''"
    and "BackupPolicyName (BackupSpec opts) = ''''"
    and "dyn_Get (Dynamic (CreateOptions opts)) ClusterGVR (Namespace (CreateOptions opts))
             (Name (CreateOptions opts)) = Inr clusterObj"
    and "dyn_List (Dynamic (CreateOptions opts)) BackupPolicyGVR
             (Namespace (CreateOptions opts))
             \<lparr>lo_LabelSelector = AppInstanceLabelKey @ ''='' @ GetName clusterObj,
              lo_FieldSelector = ''''\<rparr> = Inr items"
    and "defaults = filter (\<lambda>obj. index (GetAnnotations obj)
                               DefaultBackupPolicyAnnotationKey = TrueValue) items"
  shows "(items = [] \<longrightarrow>
            Validate ToDuration opts =
              Inl (Error (''not found any backup policy for cluster '' @ [CHR 0x22]
                           @ Name (CreateOptions opts) @ [CHR 0x22])))
       \<and> (items \<noteq> [] \<and> defaults = [] \<longrightarrow>
            Validate ToDuration opts =
              Inl (Error (''not found any default backup policy for cluster '' @ [CHR 0x22]
                           @ Name (CreateOptions opts) @ [CHR 0x22])))
       \<and> (1 < length defaults \<longrightarrow>
            Validate ToDuration opts =
              Inl (Error (''cluster '' @ [CHR 0x22] @ Name (CreateOptions opts) @ [CHR 0x22]
                           @ '' has multiple default backup policies'')))
       \<and> (\<forall>p. defaults = [p] \<longrightarrow>
            getDefaultBackupPolicy opts = Inr (GetName p)
            \<and> Validate ToDuration opts =
                (case Validate_policy ToDuration
                        (opts\<lparr>BackupSpec := (BackupSpec opts)\<lparr>BackupPolicyName :=
                                 GetName p\<rparr>\<rparr>) of
                   Inl err \<Rightarrow> Inl err
                 | Inr o2 \<Rightarrow> Validate_parentBackup o2)
            \<and> (\<forall>o2. Validate ToDuration opts = Inr o2 \<longrightarrow>
                  o2 = opts\<lparr>BackupSpec := (BackupSpec opts)\<lparr>BackupPolicyName :=
                                 GetName p\<rparr>\<rparr>))
       \<and> (\<forall>Complete now run o0 args.
            CompleteBackup Complete now
              (o0\<lparr>CreateOptions := (CreateOptions o0)\<lparr>Args := args\<rparr>\<rparr>) = Inr opts \<longrightarrow>
            NewCreateBackupCmd_Run Complete now ToDuration run o0 args =
              (case Validate ToDuration opts of
                 Inl err \<Rightarrow> Inl err
               | Inr o2 \<Rightarrow> Inr (run o2)))"
proof -
  note resolved = getDefaultBackupPolicy_listed [OF assms(3) assms(4), folded assms(5)]
  have empty: "items = [] \<Longrightarrow> defaults = []"
    using assms(5) by simp
  have none: "items = [] \<longrightarrow>
            Validate ToDuration opts =
              Inl (Error (''not found any backup policy for cluster '' @ [CHR 0x22]
                           @ Name (CreateOptions opts) @ [CHR 0x22]))"
    using assms(1,2) resolved
    by (simp add: Validate_def completeDefaultBackupPolicy_def Let_def)
  have no_default: "items \<noteq> [] \<and> defaults = [] \<longrightarrow>
            Validate ToDuration opts =
              Inl (Error (''not found any default backup policy for cluster '' @ [CHR 0x22]
                           @ Name (CreateOptions opts) @ [CHR 0x22]))"
    using assms(1,2) resolved
    by (simp add: Validate_def completeDefaultBackupPolicy_def Let_def)
  have several: "1 < length defaults \<longrightarrow>
            Validate ToDuration opts =
              Inl (Error (''cluster '' @ [CHR 0x22] @ Name (CreateOptions opts) @ [CHR 0x22]
                           @ '' has multiple default backup policies''))"
  proof
    assume many: "1 < length defaults"
    then have "defaults \<noteq> []" by auto
    moreover from this empty have "items \<noteq> []" by blast
    ultimately show "Validate ToDuration opts =
              Inl (Error (''cluster '' @ [CHR 0x22] @ Name (CreateOptions opts) @ [CHR 0x22]
                           @ '' has multiple default backup policies''))"
      using assms(1,2) resolved many
      by (simp add: Validate_def completeDefaultBackupPolicy_def Let_def)
  qed
  have unique: "getDefaultBackupPolicy opts = Inr (GetName p)
            \<and> Validate ToDuration opts =
                (case Validate_policy ToDuration
                        (opts\<lparr>BackupSpec := (BackupSpec opts)\<lparr>BackupPolicyName :=
                                 GetName p\<rparr>\<rparr>) of
                   Inl err \<Rightarrow> Inl err
                 | Inr o2 \<Rightarrow> Validate_parentBackup o2)
            \<and> (\<forall>o2. Validate ToDuration opts = Inr o2 \<longrightarrow>
                  o2 = opts\<lparr>BackupSpec := (BackupSpec opts)\<lparr>BackupPolicyName :=
                                 GetName p\<rparr>\<rparr>)"
    if one: "defaults = [p]" for p
  proof -
    let ?o1 = "opts\<lparr>BackupSpec := (BackupSpec opts)\<lparr>BackupPolicyName := GetName p\<rparr>\<rparr>"
    from one empty have "items \<noteq> []" by auto
    with one resolved have name: "getDefaultBackupPolicy opts = Inr (GetName p)"
      by (simp add: Let_def)
    with assms(1,2) have run: "Validate ToDuration opts =
        (case Validate_policy ToDuration ?o1 of
           Inl err \<Rightarrow> Inl err
         | Inr o2 \<Rightarrow> Validate_parentBackup o2)"
      by (simp add: Validate_def completeDefaultBackupPolicy_def)
    have "o2 = ?o1" if ok: "Validate ToDuration opts = Inr o2" for o2
    proof (cases "Validate_policy ToDuration ?o1")
      case (Inl err)
      with run ok show ?thesis by simp
    next
      case (Inr o')
      from Validate_policy_Inr [OF Inr] have "o' = ?o1" .
      moreover from run ok Inr have "Validate_parentBackup o' = Inr o2" by simp
      ultimately show ?thesis using Validate_parentBackup_Inr by blast
    qed
    with name run show ?thesis by blast
  qed
  have command: "NewCreateBackupCmd_Run Complete now ToDuration run o0 args =
              (case Validate ToDuration opts of
                 Inl err \<Rightarrow> Inl err
               | Inr o2 \<Rightarrow> Inr (run o2))"
    if "CompleteBackup Complete now
          (o0\<lparr>CreateOptions := (CreateOptions o0)\<lparr>Args := args\<rparr>\<rparr>) = Inr opts"
    for Complete now and run :: "CreateBackupOptions \<Rightarrow> 'r" and o0 args
    using that by (simp add: NewCreateBackupCmd_Run_def)
  from none no_default several unique command show ?thesis
    by blast
qed

theorem Validate_default_policy_witness:
  "map_sum message BackupSpec (Validate (\<lambda>s. Inr 0) (backupOptions '''' ''parent1''))
     = Inr \<lparr>BackupName = '''', BackupPolicyName = ''my-policy'',
            BackupMethod = ''volume-snapshot'', DeletionPolicy = ''Delete'',
            RetentionPeriod = '''', ParentBackupName = ''parent1''\<rparr>
   \<and> getDefaultBackupPolicy (backupOptions '''' ''parent1'') = Inr ''my-policy''"
proof -
  let ?opts = "backupOptions '''' ''parent1''"
  let ?my = "(newObject ''default'' ''my-policy'')
        \<lparr>GetLabels := [AppInstanceLabelKey \<mapsto> ''mycluster''],
         GetAnnotations := [DefaultBackupPolicyAnnotationKey \<mapsto> ''true'']\<rparr>"
  let ?hourly = "(newObject ''default'' ''hourly-policy'')
        \<lparr>GetLabels := [AppInstanceLabelKey \<mapsto> ''mycluster'']\<rparr>"
  let ?o1 = "?opts\<lparr>BackupSpec := (BackupSpec ?opts)\<lparr>BackupPolicyName := GetName ?my\<rparr>\<rparr>"
  have named: "Name (CreateOptions ?opts) \<noteq> ''''"
    and unset: "BackupPolicyName (BackupSpec ?opts) = ''''"
    by (simp_all add: backupOptions_def)
  have cluster: "dyn_Get (Dynamic (CreateOptions ?opts)) ClusterGVR
      (Namespace (CreateOptions ?opts)) (Name (CreateOptions ?opts))
      = Inr (newObject ''default'' ''mycluster'')"
    by (simp add: backupOptions_def FakeDynamicClient_def fixtureObjects_def newObject_def)
  have listed: "dyn_List (Dynamic (CreateOptions ?opts)) BackupPolicyGVR
      (Namespace (CreateOptions ?opts))
      \<lparr>lo_LabelSelector = AppInstanceLabelKey @ ''=''
          @ GetName (newObject ''default'' ''mycluster''),
       lo_FieldSelector = ''''\<rparr> = Inr [?my, ?hourly]"
    by (simp add: backupOptions_def FakeDynamicClient_def fixtureObjects_def newObject_def
        matchesLabel_def index_def AppInstanceLabelKey_def)
  have defaults: "[?my] = filter (\<lambda>obj. index (GetAnnotations obj)
      DefaultBackupPolicyAnnotationKey = TrueValue) [?my, ?hourly]"
    by (simp add: newObject_def index_def TrueValue_def)
  have policy: "Validate_policy (\<lambda>s. Inr 0) ?o1 = Inr ?o1"
    by (simp add: Validate_policy_def Let_def backupOptions_def FakeDynamicClient_def
        fixtureObjects_def newObject_def FromUnstructured_BackupPolicy_def)
  have parent: "Validate_parentBackup ?o1 = Inr ?o1"
    by (simp add: Validate_parentBackup_def Let_def backupOptions_def FakeDynamicClient_def
        fixtureObjects_def newObject_def FromUnstructured_Backup_def index_def
        BackupPhaseCompleted_def)
  from Validate_default_policy [OF named unset cluster listed defaults, of "\<lambda>s. Inr 0"]
  have "getDefaultBackupPolicy ?opts = Inr (GetName ?my)"
    and "Validate (\<lambda>s. Inr 0) ?opts =
      (case Validate_policy (\<lambda>s. Inr 0) ?o1 of
         Inl err \<Rightarrow> Inl err
       | Inr o2 \<Rightarrow> Validate_parentBackup o2)"
    by blast+
  with policy parent show ?thesis
    by (simp add: backupOptions_def newObject_def)
qed

subsection \<open>Editing a backup policy\<close>

lemma applyRows_Cons:
  "applyRows (v # vs) s =
    (if ignoredLine v then applyRows vs s
     else
       (let s1 = s\<lparr>this := (this s)\<lparr>target := target (this s) @ TrimSpace v\<rparr>\<rparr> in
        if rejectedLine (editContentKeyMap (this s)) v then (s1, Some (lineError v))
        else
          (let s2 = s1\<lparr>invoked := invoked s @ [requestOf v]\<rparr> in
           case the (editContentKeyMap (this s) (keyOf v)) (backupPolicy s)
                  (snd (requestOf v)) of
             Inl err \<Rightarrow> (s2, Some err)
           | Inr p \<Rightarrow> applyRows vs (s2\<lparr>backupPolicy := p\<rparr>))))"
  by (auto simp: ignoredLine_def rejectedLine_def keyValueForm_def keyOf_def lineError_def
      requestOf_def Let_def split: option.splits)

lemma applyRows_frame:
  "applyRows vs s = (s', r) \<Longrightarrow>
     sent s' = sent s \<and> e_Out (this s') = e_Out (this s)
     \<and> original (this s') = original (this s)
     \<and> editContentKeyMap (this s') = editContentKeyMap (this s)
     \<and> e_dynamic (this s') = e_dynamic (this s)"
proof (induction vs arbitrary: s)
  case Nil
  then show ?case by simp
next
  case (Cons v vs)
  let ?s1 = "s\<lparr>this := (this s)\<lparr>target := target (this s) @ TrimSpace v\<rparr>\<rparr>"
  let ?s2 = "?s1\<lparr>invoked := invoked s @ [requestOf v]\<rparr>"
  let ?res = "the (editContentKeyMap (this s) (keyOf v)) (backupPolicy s) (snd (requestOf v))"
  consider (skip) "ignoredLine v"
    | (bad) "\<not> ignoredLine v" "rejectedLine (editContentKeyMap (this s)) v"
    | (fail) err where "\<not> ignoredLine v" "\<not> rejectedLine (editContentKeyMap (this s)) v"
        "?res = Inl err"
    | (ok) p where "\<not> ignoredLine v" "\<not> rejectedLine (editContentKeyMap (this s)) v"
        "?res = Inr p"
    by (cases ?res) auto
  then show ?case
  proof cases
    case skip
    with Cons.prems have "applyRows vs s = (s', r)"
      by (simp only: applyRows_Cons if_True)
    from Cons.IH [OF this] show ?thesis .
  next
    case bad
    with Cons.prems have "s' = ?s1"
      by (simp add: applyRows_Cons Let_def del: applyRows.simps)
    then show ?thesis by simp
  next
    case fail
    with Cons.prems have "s' = ?s2"
      by (simp add: applyRows_Cons Let_def del: applyRows.simps)
    then show ?thesis by simp
  next
    case ok
    with Cons.prems have "applyRows vs (?s2\<lparr>backupPolicy := p\<rparr>) = (s', r)"
      by (simp add: applyRows_Cons Let_def del: applyRows.simps)
    from Cons.IH [OF this] show ?thesis by simp
  qed
qed

lemma applyRows_target:
  "applyRows vs s = (s', None) \<Longrightarrow>
     target (this s') =
       target (this s) @ concat (map TrimSpace (filter (\<lambda>v. \<not> ignoredLine v) vs))"
proof (induction vs arbitrary: s)
  case Nil
  then show ?case by simp
next
  case (Cons v vs)
  let ?s1 = "s\<lparr>this := (this s)\<lparr>target := target (this s) @ TrimSpace v\<rparr>\<rparr>"
  let ?s2 = "?s1\<lparr>invoked := invoked s @ [requestOf v]\<rparr>"
  let ?res = "the (editContentKeyMap (this s) (keyOf v)) (backupPolicy s) (snd (requestOf v))"
  show ?case
  proof (cases "ignoredLine v")
    case True
    with Cons.prems have "applyRows vs s = (s', None)"
      by (simp only: applyRows_Cons if_True)
    from Cons.IH [OF this] True show ?thesis by simp
  next
    case False
    with Cons.prems obtain p where "?res = Inr p"
      and "applyRows vs (?s2\<lparr>backupPolicy := p\<rparr>) = (s', None)"
      by (cases ?res)
        (auto simp add: applyRows_Cons Let_def simp del: applyRows.simps split: if_splits)
    from Cons.IH [OF this(2)] False show ?thesis by simp
  qed
qed

text \<open>
  C3.  When the loop over the lines ends without an error and the original text equals
  the target text (the trimmed lines that are neither comments nor empty, concatenated),
  \<^verbatim>\<open>applyChanges\<close> returns \<^verbatim>\<open>nil\<close>, sends no \<^verbatim>\<open>Update\<close> request and writes the one
  line "updated (no change)".
\<close>

theorem applyChanges_no_change:
  assumes "applyRows (e_values (this s0)) s0 = (s, None)"
    and "original (this s) = target (this s)"
  shows "applyChanges s0 =
           (s\<lparr>this := (this s)\<lparr>e_Out := e_Out (this s0) @ [''updated (no change)'']\<rparr>\<rparr>,
            None)
       \<and> sent (fst (applyChanges s0)) = sent s0
       \<and> e_Out (this (fst (applyChanges s0))) = e_Out (this s0) @ [''updated (no change)'']
       \<and> original (this s0) =
           target (this s0) @ concat (map TrimSpace
             (filter (\<lambda>v. \<not> ignoredLine v) (e_values (this s0))))"
proof -
  from applyRows_frame [OF assms(1)]
  have frame: "sent s = sent s0" "e_Out (this s) = e_Out (this s0)"
    "original (this s) = original (this s0)"
    by simp_all
  from assms frame have result: "applyChanges s0 =
      (s\<lparr>this := (this s)\<lparr>e_Out := e_Out (this s0) @ [''updated (no change)'']\<rparr>\<rparr>, None)"
    by (simp add: applyChanges_def)
  from applyRows_target [OF assms(1)] assms(2) frame(3)
  have "original (this s0) =
      target (this s0) @ concat (map TrimSpace
        (filter (\<lambda>v. \<not> ignoredLine v) (e_values (this s0))))"
    by simp
  with result frame show ?thesis by simp
qed

lemma complete_fixture: "editOptions text lines = Inr (fixtureEditOptions text lines)"
  by (simp add: editOptions_def complete_def fixtureFactory_def fixtureEditOptions_def)

lemma updateRepoName_repo1:
  "updateRepoName (FakeDynamicClient fixtureObjects) p ''repo1''
     = Inr (p\<lparr>bp_BackupRepoName := Some ''repo1''\<rparr>)"
  by (simp add: updateRepoName_def FakeDynamicClient_def fixtureObjects_def newObject_def)

lemma updateRepoName_nope:
  "updateRepoName (FakeDynamicClient fixtureObjects) p ''nope'' = Inl (notFound ''nope'')"
  by (simp add: updateRepoName_def FakeDynamicClient_def fixtureObjects_def newObject_def)

theorem applyChanges_no_change_witness:
  "snd (applyChanges (fixtureRun ''backupRepoName=repo1''
          [''# comment'', '''', ''  backupRepoName=repo1 ''])) = None
   \<and> sent (fst (applyChanges (fixtureRun ''backupRepoName=repo1''
          [''# comment'', '''', ''  backupRepoName=repo1 '']))) = []
   \<and> e_Out (this (fst (applyChanges (fixtureRun ''backupRepoName=repo1''
          [''# comment'', '''', ''  backupRepoName=repo1 ''])))) = [''updated (no change)'']
   \<and> invoked (fst (applyChanges (fixtureRun ''backupRepoName=repo1''
          [''# comment'', '''', ''  backupRepoName=repo1 '']))) = [(''backupRepoName'', ''repo1'')]"
proof -
  let ?init = "fixtureRun ''backupRepoName=repo1''
      [''# comment'', '''', ''  backupRepoName=repo1 '']"
  let ?final = "?init\<lparr>this := (this ?init)\<lparr>target := ''backupRepoName=repo1''\<rparr>,
      backupPolicy := fixturePolicy\<lparr>bp_BackupRepoName := Some ''repo1''\<rparr>,
      invoked := [(''backupRepoName'', ''repo1'')]\<rparr>"
  have rows: "applyRows (e_values (this ?init)) ?init = (?final, None)"
    by (simp add: fixtureRun_def fixtureEditOptions_def Let_def TrimSpace_def spaceRunes_def
        HasPrefix_def Trim_def updateRepoName_repo1)
  have same: "original (this ?final) = target (this ?final)"
    by (simp add: fixtureRun_def fixtureEditOptions_def)
  from applyChanges_no_change [OF rows same]
  have result: "applyChanges ?init =
      (?final\<lparr>this := (this ?final)\<lparr>e_Out := e_Out (this ?init)
         @ [''updated (no change)'']\<rparr>\<rparr>, None)"
    by (rule conjunct1)
  show ?thesis
    by (simp add: result) (simp add: fixtureRun_def fixtureEditOptions_def)
qed

lemma applyRows_append:
  "applyRows (xs @ ys) s =
     (case applyRows xs s of
        (s', Some err) \<Rightarrow> (s', Some err)
      | (s', None) \<Rightarrow> applyRows ys s')"
proof (induction xs arbitrary: s)
  case Nil
  show ?case by simp
next
  case (Cons v vs)
  show ?case
    by (simp only: append_Cons applyRows_Cons [of v] Cons.IH Let_def)
      (simp split: sum.splits)
qed

lemma valid_or_ignored:
  "\<not> rejectedLine km v \<Longrightarrow> \<not> ignoredLine v \<Longrightarrow> validLine km v"
  by (simp add: rejectedLine_def validLine_def)

lemma ignored_not_valid: "ignoredLine v \<Longrightarrow> \<not> validLine km v"
  by (simp add: validLine_def)

lemma applyRows_invoked:
  assumes "\<forall>v\<in>set pre. \<not> rejectedLine km v"
    and "editContentKeyMap (this s) = km"
    and "applyRows pre s = (s', r)"
  shows "(\<exists>n. invoked s' = invoked s @ take n (map requestOf (filter (validLine km) pre)))
       \<and> (r = None \<longrightarrow>
            invoked s' = invoked s @ map requestOf (filter (validLine km) pre))"
  using assms
proof (induction pre arbitrary: s)
  case Nil
  then show ?case by simp
next
  case (Cons v vs)
  let ?s1 = "s\<lparr>this := (this s)\<lparr>target := target (this s) @ TrimSpace v\<rparr>\<rparr>"
  let ?s2 = "?s1\<lparr>invoked := invoked s @ [requestOf v]\<rparr>"
  let ?res = "the (editContentKeyMap (this s) (keyOf v)) (backupPolicy s) (snd (requestOf v))"
  let ?rest = "map requestOf (filter (validLine km) vs)"
  from Cons.prems(1) have accepted: "\<not> rejectedLine km v"
    and others: "\<forall>v\<in>set vs. \<not> rejectedLine km v"
    by simp_all
  show ?case
  proof (cases "ignoredLine v")
    case True
    with Cons.prems(3) have "applyRows vs s = (s', r)"
      by (simp only: applyRows_Cons if_True)
    from Cons.IH [OF others Cons.prems(2) this] ignored_not_valid [OF True, of km]
    show ?thesis by simp
  next
    case False
    from valid_or_ignored [OF accepted False]
    have valid: "validLine km v" .
    then have list: "map requestOf (filter (validLine km) (v # vs)) = requestOf v # ?rest"
      by simp
    show ?thesis
    proof (cases ?res)
      case (Inl err)
      with False accepted Cons.prems(2,3) have "s' = ?s2" and "r = Some err"
        by (simp_all add: applyRows_Cons Let_def del: applyRows.simps)
      then have "invoked s' = invoked s @ take 1 (requestOf v # ?rest)" and "r \<noteq> None"
        by simp_all
      with list show ?thesis by (metis (no_types))
    next
      case (Inr p)
      with False accepted Cons.prems(2,3)
      have step: "applyRows vs (?s2\<lparr>backupPolicy := p\<rparr>) = (s', r)"
        by (simp add: applyRows_Cons Let_def del: applyRows.simps)
      have km: "editContentKeyMap (this (?s2\<lparr>backupPolicy := p\<rparr>)) = km"
        using Cons.prems(2) by simp
      have before: "invoked (?s2\<lparr>backupPolicy := p\<rparr>) = invoked s @ [requestOf v]"
        by simp
      from Cons.IH [OF others km step]
      have "(\<exists>n. invoked s' = (invoked s @ [requestOf v]) @ take n ?rest)
          \<and> (r = None \<longrightarrow> invoked s' = (invoked s @ [requestOf v]) @ ?rest)"
        unfolding before .
      then obtain n where some: "invoked s' = (invoked s @ [requestOf v]) @ take n ?rest"
        and all: "r = None \<longrightarrow> invoked s' = (invoked s @ [requestOf v]) @ ?rest"
        by blast
      from some have "invoked s' = invoked s @ take (Suc n) (requestOf v # ?rest)"
        by simp
      with all list show ?thesis
        by (metis (no_types) append_Cons append_Nil append_assoc)
    qed
  qed
qed

lemma applyRows_rejected:
  assumes "rejectedLine (editContentKeyMap (this s)) bad"
  shows "applyRows (bad # post) s =
     (s\<lparr>this := (this s)\<lparr>target := target (this s) @ TrimSpace bad\<rparr>\<rparr>,
      Some (lineError bad))"
proof -
  from assms have "\<not> ignoredLine bad"
    by (simp add: rejectedLine_def)
  with assms show ?thesis
    by (simp add: applyRows_Cons Let_def del: applyRows.simps)
qed

text \<open>
  C4.  Let the lines be \<open>pre @ bad # post\<close>, where \<open>bad\<close> is the first line that is
  neither ignored nor a \<^verbatim>\<open>key=value\<close> line with a key of the table.  Then
  \<^verbatim>\<open>applyChanges\<close> returns an error: the error of \<open>bad\<close> when the lines before it are
  processed without error, and otherwise the error returned by the first update
  function that fails on a line before it.  Update functions are called, in input order,
  for valid lines of \<open>pre\<close> only (for all of them in the first case), never for \<open>bad\<close>
  or a line of \<open>post\<close>; no \<^verbatim>\<open>Update\<close> request is sent and nothing is written.
\<close>

theorem applyChanges_rejected_line:
  assumes "e_values (this s0) = pre @ bad # post"
    and "\<forall>v\<in>set pre. \<not> rejectedLine (editContentKeyMap (this s0)) v"
    and "rejectedLine (editContentKeyMap (this s0)) bad"
  shows "snd (applyChanges s0) =
           Some (case snd (applyRows pre s0) of
                   None \<Rightarrow> lineError bad
                 | Some err \<Rightarrow> err)
       \<and> (\<exists>n. invoked (fst (applyChanges s0)) =
              invoked s0 @ take n (map requestOf
                (filter (validLine (editContentKeyMap (this s0))) pre)))
       \<and> (snd (applyRows pre s0) = None \<longrightarrow>
            invoked (fst (applyChanges s0)) =
              invoked s0 @ map requestOf
                (filter (validLine (editContentKeyMap (this s0))) pre))
       \<and> sent (fst (applyChanges s0)) = sent s0
       \<and> e_Out (this (fst (applyChanges s0))) = e_Out (this s0)"
proof -
  let ?km = "editContentKeyMap (this s0)"
  obtain s1 r1 where pre: "applyRows pre s0 = (s1, r1)"
    by (cases "applyRows pre s0")
  note log = applyRows_invoked [OF assms(2) refl pre]
  note frame = applyRows_frame [OF pre]
  show ?thesis
  proof (cases r1)
    case (Some err)
    with pre have "applyRows (e_values (this s0)) s0 = (s1, Some err)"
      by (simp add: assms(1) applyRows_append del: applyRows.simps)
    then have "applyChanges s0 = (s1, Some err)"
      by (simp add: applyChanges_def)
    with pre Some log frame show ?thesis by simp
  next
    case None
    let ?s2 = "s1\<lparr>this := (this s1)\<lparr>target := target (this s1) @ TrimSpace bad\<rparr>\<rparr>"
    from frame assms(3) have "rejectedLine (editContentKeyMap (this s1)) bad"
      by simp
    from applyRows_rejected [OF this, of post] pre None
    have "applyRows (e_values (this s0)) s0 = (?s2, Some (lineError bad))"
      by (simp add: assms(1) applyRows_append del: applyRows.simps)
    then have "applyChanges s0 = (?s2, Some (lineError bad))"
      by (simp add: applyChanges_def)
    moreover have "\<exists>n. L = take n L" for L :: "(string \<times> string) list"
      by (rule exI [of _ "length L"]) simp
    ultimately show ?thesis using pre None log frame by simp
  qed
qed

theorem applyChanges_rejected_line_witness:
  "snd (applyChanges (fixtureRun ''''
          [''backupRepoName=repo1'', ''foo=bar'', ''backupRepoName=''])) =
     Some (Error ''invalid key: foo'')
   \<and> invoked (fst (applyChanges (fixtureRun ''''
          [''backupRepoName=repo1'', ''foo=bar'', ''backupRepoName='']))) =
     [(''backupRepoName'', ''repo1'')]
   \<and> sent (fst (applyChanges (fixtureRun ''''
          [''backupRepoName=repo1'', ''foo=bar'', ''backupRepoName='']))) = []
   \<and> e_Out (this (fst (applyChanges (fixtureRun ''''
          [''backupRepoName=repo1'', ''foo=bar'', ''backupRepoName=''])))) = []"
proof -
  let ?init = "fixtureRun '''' [''backupRepoName=repo1'', ''foo=bar'', ''backupRepoName='']"
  let ?km = "editContentKeyMap (this ?init)"
  have lines: "e_values (this ?init) = [''backupRepoName=repo1''] @ ''foo=bar'' # [''backupRepoName='']"
    by (simp add: fixtureRun_def fixtureEditOptions_def)
  have accepted: "\<forall>v\<in>set [''backupRepoName=repo1'']. \<not> rejectedLine ?km v"
    by (simp add: fixtureRun_def fixtureEditOptions_def rejectedLine_def ignoredLine_def
        keyValueForm_def keyOf_def TrimSpace_def spaceRunes_def HasPrefix_def)
  have rejected: "rejectedLine ?km ''foo=bar''"
    by (simp add: fixtureRun_def fixtureEditOptions_def rejectedLine_def ignoredLine_def
        keyValueForm_def keyOf_def TrimSpace_def spaceRunes_def HasPrefix_def)
  have before: "snd (applyRows [''backupRepoName=repo1''] ?init) = None"
    by (simp add: fixtureRun_def fixtureEditOptions_def Let_def TrimSpace_def spaceRunes_def
        HasPrefix_def Trim_def updateRepoName_repo1)
  have valid: "filter (validLine ?km) [''backupRepoName=repo1''] = [''backupRepoName=repo1'']"
    by (simp add: fixtureRun_def fixtureEditOptions_def validLine_def ignoredLine_def
        keyValueForm_def keyOf_def TrimSpace_def spaceRunes_def HasPrefix_def)
  have request: "requestOf ''backupRepoName=repo1'' = (''backupRepoName'', ''repo1'')"
    by (simp add: requestOf_def keyOf_def TrimSpace_def spaceRunes_def Trim_def)
  have error: "lineError ''foo=bar'' = Error ''invalid key: foo''"
    by (simp add: lineError_def keyValueForm_def keyOf_def TrimSpace_def spaceRunes_def)
  have start: "invoked ?init = []" "sent ?init = []" "e_Out (this ?init) = []"
    by (simp_all add: fixtureRun_def fixtureEditOptions_def)
  from applyChanges_rejected_line [OF lines accepted rejected]
  show ?thesis
    by (simp only: before valid request error start option.case list.map append_Nil
        simp_thms)
qed

text \<open>
  The claim as the specification states it, "returns an error at the first such line",
  fails where an update function fails on an earlier line: with the lines
  \<^verbatim>\<open>backupRepoName=nope\<close> and \<^verbatim>\<open>foo=bar\<close>, the second is the first rejected line, and
  the error returned is that of the repository lookup for the first.
\<close>

theorem applyChanges_rejected_line_counterexample:
  "rejectedLine (editContentKeyMap (this (fixtureRun '''' [''backupRepoName=nope'', ''foo=bar''])))
     ''foo=bar''
   \<and> validLine (editContentKeyMap (this (fixtureRun '''' [''backupRepoName=nope'', ''foo=bar''])))
     ''backupRepoName=nope''
   \<and> lineError ''foo=bar'' = Error ''invalid key: foo''
   \<and> snd (applyChanges (fixtureRun '''' [''backupRepoName=nope'', ''foo=bar'']))
       = Some (Error ''nope not found'')
   \<and> snd (applyChanges (fixtureRun '''' [''backupRepoName=nope'', ''foo=bar'']))
       \<noteq> Some (lineError ''foo=bar'')"
proof -
  let ?init = "fixtureRun '''' [''backupRepoName=nope'', ''foo=bar'']"
  have rejected: "rejectedLine (editContentKeyMap (this ?init)) ''foo=bar''"
    by (simp add: fixtureRun_def fixtureEditOptions_def rejectedLine_def ignoredLine_def
        keyValueForm_def keyOf_def TrimSpace_def spaceRunes_def HasPrefix_def)
  have valid: "validLine (editContentKeyMap (this ?init)) ''backupRepoName=nope''"
    by (simp add: fixtureRun_def fixtureEditOptions_def validLine_def ignoredLine_def
        keyValueForm_def keyOf_def TrimSpace_def spaceRunes_def HasPrefix_def)
  have error: "lineError ''foo=bar'' = Error ''invalid key: foo''"
    by (simp add: lineError_def keyValueForm_def keyOf_def TrimSpace_def spaceRunes_def)
  have rows: "snd (applyRows (e_values (this ?init)) ?init) = Some (Error ''nope not found'')"
    by (simp add: fixtureRun_def fixtureEditOptions_def Let_def TrimSpace_def spaceRunes_def
        HasPrefix_def Trim_def updateRepoName_nope notFound_def)
  then obtain s' where "applyRows (e_values (this ?init)) ?init
      = (s', Some (Error ''nope not found''))"
    by (cases "applyRows (e_values (this ?init)) ?init") simp
  then have result: "snd (applyChanges ?init) = Some (Error ''nope not found'')"
    by (simp add: applyChanges_def)
  from rejected valid error result show ?thesis
    by simp
qed

subsection \<open>Listing backups\<close>

lemma lookupBool_fold:
  "lookupBool (fold (\<lambda>name m. m(name \<mapsto> True)) names m) n
     = (n \<in> set names \<or> lookupBool m n)"
  by (induction names arbitrary: m) (auto simp: lookupBool_def)

lemma lookupBool_nameMap: "lookupBool (nameMap names) n = (n \<in> set names)"
  by (simp add: nameMap_def lookupBool_fold) (simp add: lookupBool_def)

lemma FromUnstructured_Backup_convertible:
  assumes "convertError obj = None"
  shows "\<exists>b. FromUnstructured_Backup obj = Inr b \<and> b_Name b = GetName obj
           \<and> b_CreationTimestamp b = GetCreationTimestamp obj"
  using assms by (simp add: FromUnstructured_Backup_def)

lemma addBackupRows_converted:
  assumes "\<forall>obj\<in>set objs. convertError obj = None"
  shows "addBackupRows lib names m objs tbl =
     Inr (tbl @ map (backupRow lib)
       (filter (\<lambda>b. names = [] \<or> lookupBool m (b_Name b))
          (map (projr \<circ> FromUnstructured_Backup) objs)))"
  using assms
proof (induction objs arbitrary: tbl)
  case Nil
  show ?case by simp
next
  case (Cons obj objs)
  from Cons.prems obtain b where b: "FromUnstructured_Backup obj = Inr b"
    using FromUnstructured_Backup_convertible [of obj] by auto
  from Cons.prems have rest: "\<forall>obj\<in>set objs. convertError obj = None"
    by simp
  show ?case
    by (simp add: b Cons.IH [OF rest])
qed

lemma addBackupRows_error:
  assumes "\<not> (\<forall>obj\<in>set objs. convertError obj = None)"
  shows "\<exists>bad\<in>set objs. \<exists>e. FromUnstructured_Backup bad = Inl e
           \<and> addBackupRows lib names m objs tbl = Inl e"
  using assms
proof (induction objs arbitrary: tbl)
  case Nil
  then show ?case by simp
next
  case (Cons obj objs)
  show ?case
  proof (cases "convertError obj")
    case (Some e)
    then have "FromUnstructured_Backup obj = Inl e"
      by (simp add: FromUnstructured_Backup_def)
    then show ?thesis by simp
  next
    case None
    then obtain b where b: "FromUnstructured_Backup obj = Inr b"
      using FromUnstructured_Backup_convertible [of obj] by auto
    from None Cons.prems have "\<not> (\<forall>obj\<in>set objs. convertError obj = None)"
      by simp
    from Cons.IH [OF this] b show ?thesis
      by (auto split: if_splits)
  qed
qed

lemma sorted_converted:
  assumes "\<forall>obj\<in>set objs. convertError obj = None"
  shows "map b_CreationTimestamp (map (projr \<circ> FromUnstructured_Backup) objs)
           = map GetCreationTimestamp objs"
    and "map b_Name (map (projr \<circ> FromUnstructured_Backup) objs) = map GetName objs"
  using assms by (simp_all add: FromUnstructured_Backup_def)

text \<open>
  C5.  In a format other than JSON and YAML, with a non-empty list of backups answered
  by the API server, \<^verbatim>\<open>PrintBackupList\<close> either returns the conversion error of one of
  the backups and prints nothing, or prints one table whose rows are the rows of
  backups \<open>bs\<close> in ascending order of creation timestamp; with a non-empty \<^verbatim>\<open>Names\<close>
  every one of them has its name in \<^verbatim>\<open>Names\<close>; and \<open>bs\<close> are the listed backups
  (those with a name in \<^verbatim>\<open>Names\<close>, when it is not empty), one row for each.
\<close>

theorem PrintBackupList_table:
  assumes "l_Format (lb_ListOptions opts) \<noteq> JSON"
    and "l_Format (lb_ListOptions opts) \<noteq> YAML"
    and "f_DynamicClient (l_Factory (lb_ListOptions opts)) = Inr dyn"
    and "dyn_List dyn BackupGVR
           (if l_AllNamespaces (lb_ListOptions opts) then ''''
            else l_Namespace (lb_ListOptions opts))
           \<lparr>lo_LabelSelector = l_LabelSelector (lb_ListOptions opts),
            lo_FieldSelector = l_FieldSelector (lb_ListOptions opts)\<rparr> = Inr items"
    and "items \<noteq> []"
  shows "(\<exists>e. PrintBackupList run lib opts = ([], Some e)
            \<and> (\<exists>obj\<in>set items. FromUnstructured_Backup obj = Inl e))
       \<or> (\<exists>bs. PrintBackupList run lib opts =
                   ([TablePrinted backupHeader (map (backupRow lib) bs)], None)
            \<and> sorted (map b_CreationTimestamp bs)
            \<and> (l_Names (lb_ListOptions opts) \<noteq> [] \<longrightarrow>
                 (\<forall>b\<in>set bs. b_Name b \<in> set (l_Names (lb_ListOptions opts))))
            \<and> set bs = {b. \<exists>obj\<in>set items. FromUnstructured_Backup obj = Inr b
                           \<and> (l_Names (lb_ListOptions opts) = []
                                \<or> b_Name b \<in> set (l_Names (lb_ListOptions opts)))}
            \<and> length bs = length (filter (\<lambda>obj. l_Names (lb_ListOptions opts) = []
                                \<or> GetName obj \<in> set (l_Names (lb_ListOptions opts))) items))"
proof -
  let ?lo = "lb_ListOptions opts"
  let ?names = "l_Names ?lo"
  let ?sorted = "sortByCreationTimestamp items"
  let ?keep = "\<lambda>b. ?names = [] \<or> b_Name b \<in> set ?names"
  let ?dec = "projr \<circ> FromUnstructured_Backup"
  have run: "PrintBackupList run lib opts =
      (case addBackupRows lib ?names (nameMap ?names) ?sorted [] of
         Inl err \<Rightarrow> ([], Some err)
       | Inr rows \<Rightarrow> ([TablePrinted backupHeader rows], None))"
    using assms by (cases "l_AllNamespaces ?lo") (simp_all add: PrintBackupList_def Let_def)
  have same_set: "set ?sorted = set items"
    by (simp add: sortByCreationTimestamp_def)
  have ordered: "sorted (map GetCreationTimestamp ?sorted)"
    by (simp add: sortByCreationTimestamp_def)
  show ?thesis
  proof (cases "\<forall>obj\<in>set ?sorted. convertError obj = None")
    case False
    from addBackupRows_error [OF False, of lib ?names "nameMap ?names" "[]"] same_set run
    have "\<exists>e. PrintBackupList run lib opts = ([], Some e)
            \<and> (\<exists>obj\<in>set items. FromUnstructured_Backup obj = Inl e)"
      by auto
    then show ?thesis ..
  next
    case True
    let ?bs = "filter ?keep (map ?dec ?sorted)"
    from addBackupRows_converted [OF True, of lib ?names "nameMap ?names" "[]"] run
    have printed: "PrintBackupList run lib opts =
        ([TablePrinted backupHeader (map (backupRow lib) ?bs)], None)"
      by (simp add: lookupBool_nameMap)
    have "sorted (map b_CreationTimestamp (map ?dec ?sorted))"
      unfolding sorted_converted(1) [OF True] by (rule ordered)
    then have in_order: "sorted (map b_CreationTimestamp ?bs)"
      by (rule sorted_filter)
    have named: "?names \<noteq> [] \<longrightarrow> (\<forall>b\<in>set ?bs. b_Name b \<in> set ?names)"
      by simp
    have dec: "FromUnstructured_Backup obj = Inr (?dec obj)" if "obj \<in> set items" for obj
      using that True same_set FromUnstructured_Backup_convertible [of obj] by auto
    have members: "set ?bs = {b. \<exists>obj\<in>set items. FromUnstructured_Backup obj = Inr b
                           \<and> (?names = [] \<or> b_Name b \<in> set ?names)}"
    proof (intro set_eqI iffI)
      fix b assume "b \<in> set ?bs"
      then obtain obj where "obj \<in> set items" "b = ?dec obj" "?keep b"
        using same_set by auto
      with dec [of obj] show "b \<in> {b. \<exists>obj\<in>set items. FromUnstructured_Backup obj = Inr b
                           \<and> (?names = [] \<or> b_Name b \<in> set ?names)}"
        by auto
    next
      fix b assume "b \<in> {b. \<exists>obj\<in>set items. FromUnstructured_Backup obj = Inr b
                           \<and> (?names = [] \<or> b_Name b \<in> set ?names)}"
      then obtain obj where obj: "obj \<in> set items" "FromUnstructured_Backup obj = Inr b"
        and "?keep b" by auto
      from obj have "b = ?dec obj" by simp
      with obj(1) \<open>?keep b\<close> same_set show "b \<in> set ?bs" by auto
    qed
    have "length ?bs = length (filter (\<lambda>obj. ?keep (?dec obj)) ?sorted)"
      by (simp add: filter_map comp_def)
    also have "filter (\<lambda>obj. ?keep (?dec obj)) ?sorted
        = filter (\<lambda>obj. ?names = [] \<or> GetName obj \<in> set ?names) ?sorted"
      using True by (intro filter_cong refl) (simp add: FromUnstructured_Backup_def)
    also have "length \<dots> = length (filter (\<lambda>obj. ?names = [] \<or> GetName obj \<in> set ?names) items)"
      unfolding sortByCreationTimestamp_def
      by (simp add: filter_sort)
    finally have count: "length ?bs =
        length (filter (\<lambda>obj. ?names = [] \<or> GetName obj \<in> set ?names) items)" .
    from printed in_order named members count show ?thesis
      by blast
  qed
qed

theorem PrintBackupList_table_witness:
  "PrintBackupList ListOptions_Run fixtureCells
     (listBackupOptions Table [''parent2'', ''parent1''] '''')
   = ([TablePrinted backupHeader
         [[''parent1'', ''default'', ''mycluster'', ''volume-snapshot'', ''Completed'', '''',
           '''', ''1686938400'', '''', ''''],
          [''parent2'', ''default'', ''mycluster'', ''volume-snapshot'', ''Running'', '''',
           '''', ''1686942000'', '''', '''']]], None)"
proof -
  let ?opts = "listBackupOptions Table [''parent2'', ''parent1''] ''''"
  let ?items = "[(newObject ''default'' ''parent2'')
        \<lparr>GetLabels := [AppInstanceLabelKey \<mapsto> ''mycluster''],
         GetCreationTimestamp := 1686942000, spec_backupMethod := ''volume-snapshot'',
         status_phase := ''Running''\<rparr>,
      (newObject ''default'' ''parent1'')
        \<lparr>GetLabels := [AppInstanceLabelKey \<mapsto> ''mycluster''],
         GetCreationTimestamp := 1686938400, spec_backupMethod := ''volume-snapshot'',
         status_phase := ''Completed''\<rparr>,
      (newObject ''default'' ''other1'')
        \<lparr>GetLabels := [AppInstanceLabelKey \<mapsto> ''othercluster''],
         GetCreationTimestamp := 1686940000, spec_backupMethod := ''volume-snapshot'',
         status_phase := ''Completed''\<rparr>]"
  have table: "l_Format (lb_ListOptions ?opts) \<noteq> JSON"
    "l_Format (lb_ListOptions ?opts) \<noteq> YAML"
    by (simp_all add: listBackupOptions_def)
  have client: "f_DynamicClient (l_Factory (lb_ListOptions ?opts))
      = Inr (FakeDynamicClient fixtureObjects)"
    by (simp add: listBackupOptions_def fixtureFactory_def)
  have listed: "dyn_List (FakeDynamicClient fixtureObjects) BackupGVR
           (if l_AllNamespaces (lb_ListOptions ?opts) then ''''
            else l_Namespace (lb_ListOptions ?opts))
           \<lparr>lo_LabelSelector = l_LabelSelector (lb_ListOptions ?opts),
            lo_FieldSelector = l_FieldSelector (lb_ListOptions ?opts)\<rparr> = Inr ?items"
    by (simp add: listBackupOptions_def FakeDynamicClient_def fixtureObjects_def
        newObject_def matchesLabel_def)
  have some: "?items \<noteq> []"
    by simp
  have rows: "addBackupRows fixtureCells [''parent2'', ''parent1'']
      (nameMap [''parent2'', ''parent1'']) (sortByCreationTimestamp ?items) []
    = Inr [[''parent1'', ''default'', ''mycluster'', ''volume-snapshot'', ''Completed'', '''',
           '''', ''1686938400'', '''', ''''],
          [''parent2'', ''default'', ''mycluster'', ''volume-snapshot'', ''Running'', '''',
           '''', ''1686942000'', '''', '''']]"
    by (simp add: sortByCreationTimestamp_def newObject_def FromUnstructured_Backup_def
        nameMap_def lookupBool_def backupRow_def fixtureCells_def index_def
        AppInstanceLabelKey_def decimal.simps digit_def Let_def)
  have printed: "PrintBackupList ListOptions_Run fixtureCells ?opts =
      (case addBackupRows fixtureCells [''parent2'', ''parent1'']
              (nameMap [''parent2'', ''parent1'']) (sortByCreationTimestamp ?items) [] of
         Inl err \<Rightarrow> ([], Some err)
       | Inr rows \<Rightarrow> ([TablePrinted backupHeader rows], None))"
    using listed
    by (simp add: PrintBackupList_def listBackupOptions_def fixtureFactory_def Let_def)
  from PrintBackupList_table [OF table client listed some, of ListOptions_Run fixtureCells]
    printed rows
  show ?thesis
    by simp
qed

text \<open>
  C6.  In the formats JSON and YAML \<^verbatim>\<open>PrintBackupList\<close> does nothing but call
  \<^verbatim>\<open>o.Run\<close> of the generic list options, with \<^verbatim>\<open>Names\<close> replaced by the one
  \<^verbatim>\<open>--name\<close> value when that flag is set: what is printed and returned is what
  \<^verbatim>\<open>o.Run\<close> prints and returns.  With the generic \<^verbatim>\<open>Run\<close> of the specification, that
  is the list answered by the API server, kept to that name when the flag is set, with
  every object whole.
\<close>

theorem PrintBackupList_structured:
  assumes "l_Format (lb_ListOptions opts) = JSON \<or> l_Format (lb_ListOptions opts) = YAML"
  shows "PrintBackupList run lib opts =
           run (if lb_BackupName opts \<noteq> '''' then
                  (lb_ListOptions opts)\<lparr>l_Names := [lb_BackupName opts]\<rparr>
                else lb_ListOptions opts)
       \<and> (\<forall>dyn items.
            f_DynamicClient (l_Factory (lb_ListOptions opts)) = Inr dyn \<longrightarrow>
            dyn_List dyn (l_GVR (lb_ListOptions opts)) (l_Namespace (lb_ListOptions opts))
              \<lparr>lo_LabelSelector = l_LabelSelector (lb_ListOptions opts),
               lo_FieldSelector = l_FieldSelector (lb_ListOptions opts)\<rparr> = Inr items \<longrightarrow>
            PrintBackupList ListOptions_Run lib opts =
              ([Structured (l_Format (lb_ListOptions opts))
                  (if lb_BackupName opts \<noteq> '''' then
                     filter (\<lambda>obj. GetName obj = lb_BackupName opts) items
                   else if l_Names (lb_ListOptions opts) = [] then items
                   else filter (\<lambda>obj. GetName obj \<in> set (l_Names (lb_ListOptions opts)))
                          items)], None))"
proof -
  have delegated: "PrintBackupList run lib opts =
           run (if lb_BackupName opts \<noteq> '''' then
                  (lb_ListOptions opts)\<lparr>l_Names := [lb_BackupName opts]\<rparr>
                else lb_ListOptions opts)"
    for run :: "ListOptions \<Rightarrow> printed list \<times> error option"
    using assms by (auto simp: PrintBackupList_def Let_def)
  have passthrough: "PrintBackupList ListOptions_Run lib opts =
              ([Structured (l_Format (lb_ListOptions opts))
                  (if lb_BackupName opts \<noteq> '''' then
                     filter (\<lambda>obj. GetName obj = lb_BackupName opts) items
                   else if l_Names (lb_ListOptions opts) = [] then items
                   else filter (\<lambda>obj. GetName obj \<in> set (l_Names (lb_ListOptions opts)))
                          items)], None)"
    if "f_DynamicClient (l_Factory (lb_ListOptions opts)) = Inr dyn"
      and "dyn_List dyn (l_GVR (lb_ListOptions opts)) (l_Namespace (lb_ListOptions opts))
              \<lparr>lo_LabelSelector = l_LabelSelector (lb_ListOptions opts),
               lo_FieldSelector = l_FieldSelector (lb_ListOptions opts)\<rparr> = Inr items"
    for dyn items
    unfolding delegated using that by (simp add: ListOptions_Run_def)
  from delegated [of run] passthrough show ?thesis
    by blast
qed

theorem PrintBackupList_structured_witness:
  "PrintBackupList ListOptions_Run fixtureCells (listBackupOptions JSON [''parent1''] ''parent1'')
   = ([Structured JSON
         [(newObject ''default'' ''parent1'')
            \<lparr>GetLabels := [AppInstanceLabelKey \<mapsto> ''mycluster''],
             GetCreationTimestamp := 1686938400, spec_backupMethod := ''volume-snapshot'',
             status_phase := ''Completed''\<rparr>]], None)"
proof -
  let ?opts = "listBackupOptions JSON [''parent1''] ''parent1''"
  let ?items = "[(newObject ''default'' ''parent2'')
        \<lparr>GetLabels := [AppInstanceLabelKey \<mapsto> ''mycluster''],
         GetCreationTimestamp := 1686942000, spec_backupMethod := ''volume-snapshot'',
         status_phase := ''Running''\<rparr>,
      (newObject ''default'' ''parent1'')
        \<lparr>GetLabels := [AppInstanceLabelKey \<mapsto> ''mycluster''],
         GetCreationTimestamp := 1686938400, spec_backupMethod := ''volume-snapshot'',
         status_phase := ''Completed''\<rparr>,
      (newObject ''default'' ''other1'')
        \<lparr>GetLabels := [AppInstanceLabelKey \<mapsto> ''othercluster''],
         GetCreationTimestamp := 1686940000, spec_backupMethod := ''volume-snapshot'',
         status_phase := ''Completed''\<rparr>]"
  have json: "l_Format (lb_ListOptions ?opts) = JSON \<or> l_Format (lb_ListOptions ?opts) = YAML"
    by (simp add: listBackupOptions_def)
  have client: "f_DynamicClient (l_Factory (lb_ListOptions ?opts))
      = Inr (FakeDynamicClient fixtureObjects)"
    by (simp add: listBackupOptions_def fixtureFactory_def)
  have listed: "dyn_List (FakeDynamicClient fixtureObjects) (l_GVR (lb_ListOptions ?opts))
           (l_Namespace (lb_ListOptions ?opts))
           \<lparr>lo_LabelSelector = l_LabelSelector (lb_ListOptions ?opts),
            lo_FieldSelector = l_FieldSelector (lb_ListOptions ?opts)\<rparr> = Inr ?items"
    by (simp add: listBackupOptions_def FakeDynamicClient_def fixtureObjects_def
        newObject_def matchesLabel_def)
  from PrintBackupList_structured [OF json, of ListOptions_Run fixtureCells]
  have "PrintBackupList ListOptions_Run fixtureCells ?opts =
      ([Structured (l_Format (lb_ListOptions ?opts))
          (if lb_BackupName ?opts \<noteq> '''' then
             filter (\<lambda>obj. GetName obj = lb_BackupName ?opts) ?items
           else if l_Names (lb_ListOptions ?opts) = [] then ?items
           else filter (\<lambda>obj. GetName obj \<in> set (l_Names (lb_ListOptions ?opts)))
                  ?items)], None)"
    using client listed by blast
  then show ?thesis
    by (simp add: listBackupOptions_def newObject_def)
qed

end
